theory Spec2Isabelle
  imports Complex_Main "HOL-Library.Char_ord" "HOL-Library.List_Lexorder"
begin

section \<open>Values: floats with their special values, errors\<close>

text \<open>
  The script computes with IEEE doubles (Python floats and numpy float64 scalars). A finite
  double is idealised as a real number (no rounding error, no overflow); the special
  values are kept, because the script's own arithmetic can produce them: numpy scalar
  division by zero gives an infinity or NaN instead of raising, and every comparison with
  NaN is false. Signed zeros are not distinguished.
\<close>

datatype fl = Fin real | PInf | NInf | NaN

datatype py_error = ValueError | FileNotFoundError | FileExistsError | LibraryError

fun fl_neg :: "fl \<Rightarrow> fl" where
  "fl_neg (Fin x) = Fin (- x)"
| "fl_neg PInf = NInf"
| "fl_neg NInf = PInf"
| "fl_neg NaN = NaN"

fun fl_add :: "fl \<Rightarrow> fl \<Rightarrow> fl" where
  "fl_add NaN _ = NaN"
| "fl_add _ NaN = NaN"
| "fl_add (Fin x) (Fin y) = Fin (x + y)"
| "fl_add PInf NInf = NaN"
| "fl_add NInf PInf = NaN"
| "fl_add PInf _ = PInf"
| "fl_add _ PInf = PInf"
| "fl_add NInf _ = NInf"
| "fl_add _ NInf = NInf"

definition fl_sub :: "fl \<Rightarrow> fl \<Rightarrow> fl" where
  "fl_sub a b = fl_add a (fl_neg b)"

fun fl_abs :: "fl \<Rightarrow> fl" where
  "fl_abs (Fin x) = Fin \<bar>x\<bar>"
| "fl_abs PInf = PInf"
| "fl_abs NInf = PInf"
| "fl_abs NaN = NaN"

fun fl_sq :: "fl \<Rightarrow> fl" where
  "fl_sq (Fin x) = Fin (x * x)"
| "fl_sq PInf = PInf"
| "fl_sq NInf = PInf"
| "fl_sq NaN = NaN"

text \<open>
  Division of a numpy float64 scalar: a zero divisor gives NaN for \<open>0/0\<close> and an infinity
  otherwise (with a warning, never an exception).
\<close>

fun fl_div :: "fl \<Rightarrow> fl \<Rightarrow> fl" where
  "fl_div NaN _ = NaN"
| "fl_div _ NaN = NaN"
| "fl_div (Fin x) (Fin y) =
     (if y = 0 then (if x = 0 then NaN else if 0 < x then PInf else NInf) else Fin (x / y))"
| "fl_div (Fin x) PInf = Fin 0"
| "fl_div (Fin x) NInf = Fin 0"
| "fl_div PInf (Fin y) = (if 0 \<le> y then PInf else NInf)"
| "fl_div NInf (Fin y) = (if 0 \<le> y then NInf else PInf)"
| "fl_div PInf _ = NaN"
| "fl_div NInf _ = NaN"

text \<open>\<open>a > b\<close> on floats: false as soon as one side is NaN.\<close>

fun fl_gt :: "fl \<Rightarrow> fl \<Rightarrow> bool" where
  "fl_gt NaN _ = False"
| "fl_gt _ NaN = False"
| "fl_gt (Fin x) (Fin y) = (y < x)"
| "fl_gt PInf PInf = False"
| "fl_gt PInf _ = True"
| "fl_gt NInf _ = False"
| "fl_gt (Fin x) PInf = False"
| "fl_gt (Fin x) NInf = True"

text \<open>\<open>0 <= x\<close> on floats, the reading of "non-negative": false for NaN.\<close>

fun fl_nonneg :: "fl \<Rightarrow> bool" where
  "fl_nonneg (Fin x) = (0 \<le> x)"
| "fl_nonneg PInf = True"
| "fl_nonneg NInf = False"
| "fl_nonneg NaN = False"

text \<open>\<open>math.sqrt\<close>: raises ValueError (math domain error) below zero.\<close>

fun math_sqrt :: "fl \<Rightarrow> py_error + fl" where
  "math_sqrt (Fin x) = (if x < 0 then Inl ValueError else Inr (Fin (sqrt x)))"
| "math_sqrt PInf = Inr PInf"
| "math_sqrt NInf = Inl ValueError"
| "math_sqrt NaN = Inr NaN"

text \<open>\<open>n ** 0.5\<close> for a Python int \<open>n \<ge> 0\<close> (a length).\<close>

definition int_sqrt :: "nat \<Rightarrow> fl" where
  "int_sqrt n = Fin (sqrt (real n))"

text \<open>
  \<open>round(x, ndigits)\<close>: the nearest multiple of \<open>10 ** -ndigits\<close>, a tie going to the even
  one; NaN and the infinities are returned as they are.
\<close>

definition rint :: "real \<Rightarrow> int" where
  "rint x =
     (let f = \<lfloor>x\<rfloor>; d = x - of_int f
      in if d < 1 / 2 then f else if 1 / 2 < d then f + 1 else if even f then f else f + 1)"

fun py_round :: "fl \<Rightarrow> nat \<Rightarrow> fl" where
  "py_round (Fin x) n = Fin (of_int (rint (x * 10 ^ n)) / 10 ^ n)"
| "py_round PInf n = PInf"
| "py_round NInf n = NInf"
| "py_round NaN n = NaN"

section \<open>pandas Series reductions\<close>

text \<open>
  \<open>Series.mean()\<close>, \<open>Series.var(ddof=1)\<close>, \<open>Series.std()\<close> and \<open>Series.count()\<close> skip
  NaN entries (\<open>skipna=True\<close> is the default); the mean of no value and the variance of
  fewer than two values are NaN.
\<close>

definition dropna :: "fl list \<Rightarrow> fl list" where
  "dropna xs = filter (\<lambda>x. x \<noteq> NaN) xs"

definition fl_sum :: "fl list \<Rightarrow> fl" where
  "fl_sum xs = foldl fl_add (Fin 0) xs"

definition series_count :: "fl list \<Rightarrow> nat" where
  "series_count xs = length (dropna xs)"

definition series_mean :: "fl list \<Rightarrow> fl" where
  "series_mean xs = (let ys = dropna xs in fl_div (fl_sum ys) (Fin (real (length ys))))"

definition series_var :: "fl list \<Rightarrow> fl" where
  "series_var xs =
     (let ys = dropna xs; m = series_mean xs
      in if length ys < 2 then NaN
         else fl_div (fl_sum (map (\<lambda>y. fl_sq (fl_sub y m)) ys)) (Fin (real (length ys - 1))))"

text \<open>numpy's square root: NaN below zero, no exception.\<close>

fun np_sqrt :: "fl \<Rightarrow> fl" where
  "np_sqrt (Fin x) = (if x < 0 then NaN else Fin (sqrt x))"
| "np_sqrt PInf = PInf"
| "np_sqrt NInf = NaN"
| "np_sqrt NaN = NaN"

definition series_std :: "fl list \<Rightarrow> fl" where
  "series_std xs = np_sqrt (series_var xs)"

section \<open>The statistics library\<close>

text \<open>
  The routines of \<open>scipy.stats\<close> the script calls are parameters of the model: each takes
  the samples and returns its result or raises. \<open>shapiro\<close> gives the p-value (the only
  field the script reads), \<open>ttest_ind\<close> (called with \<open>equal_var=False\<close>),
  \<open>mannwhitneyu\<close> (\<open>alternative="two-sided"\<close>), \<open>spearmanr\<close> and \<open>kruskal\<close> give the
  pair (statistic, p-value), \<open>norm_isf\<close> is \<open>stats.norm.isf\<close>.
\<close>

record stats_lib =
  shapiro :: "fl list \<Rightarrow> py_error + fl"
  ttest_ind :: "fl list \<Rightarrow> fl list \<Rightarrow> py_error + fl \<times> fl"
  mannwhitneyu :: "fl list \<Rightarrow> fl list \<Rightarrow> py_error + fl \<times> fl"
  norm_isf :: "fl \<Rightarrow> fl"
  spearmanr :: "(fl \<times> fl) list \<Rightarrow> py_error + fl \<times> fl"
  kruskal :: "fl list list \<Rightarrow> py_error + fl \<times> fl"

section \<open>Tables\<close>

text \<open>
  The tables are modelled with the fixed headers the script expects, a row per record.
  A cell as \<open>pd.read_csv\<close> delivers it is a string or a float (NaN for a missing cell).
  The label columns (tool, education, experience, knowledge levels) hold text or are
  missing (\<open>None\<close>).
\<close>

datatype cell = Str string | Flt fl

record metrics_row =
  ID :: cell
  tempo_h :: fl
  erros :: fl
  design :: fl
  ferramenta :: "string option"

record profile_row =
  pID :: cell
  formacao :: "string option"
  experiencia :: "string option"
  kn_ref :: "string option"
  kn_java :: "string option"

text \<open>The merged table: the metrics columns followed by the profile's other columns.\<close>

record joined_row = metrics_row +
  j_formacao :: "string option"
  j_experiencia :: "string option"
  j_kn_ref :: "string option"
  j_kn_java :: "string option"

text \<open>The three outcome metrics, and \<open>df[metric]\<close> for each.\<close>

datatype metric = Tempo_h | Erros | Design

fun col :: "metric \<Rightarrow> 'a metrics_row_scheme \<Rightarrow> fl" where
  "col Tempo_h r = tempo_h r"
| "col Erros r = erros r"
| "col Design r = design r"

text \<open>
  \<open>df[df["ferramenta"] == label]\<close>: the comparison gives a boolean mask, one entry per
  row (a missing tool compares unequal), and indexing with the mask keeps the rows whose
  entry is true.
\<close>

definition eq_mask :: "('r \<Rightarrow> string option) \<Rightarrow> string \<Rightarrow> 'r list \<Rightarrow> bool list" where
  "eq_mask column label df = map (\<lambda>r. column r = Some label) df"

definition bool_index :: "'r list \<Rightarrow> bool list \<Rightarrow> 'r list" where
  "bool_index df bs = map fst (filter snd (zip df bs))"

section \<open>hypothesis_tests\<close>

record hyp_row =
  h_metrica :: string
  h_teste :: string
  h_estatistica :: fl
  h_p_valor :: fl
  h_normal :: bool
  h_efeito :: fl

text \<open>The test names; the dash of "Mann-Whitney" is U+2013, three bytes in UTF-8.\<close>

definition name_welch :: string where
  "name_welch = ''t (Welch)''"

definition name_mann_whitney :: string where
  "name_mann_whitney = ''Mann'' @ [CHR 0xE2, CHR 0x80, CHR 0x93] @ ''Whitney''"

definition grp :: "string \<Rightarrow> metric \<Rightarrow> 'a metrics_row_scheme list \<Rightarrow> fl list" where
  "grp label m df = map (col m) (bool_index df (eq_mask ferramenta label df))"

text \<open>One pass of the loop of \<open>hypothesis_tests\<close>: the result row of a metric.\<close>

definition test_metric ::
  "stats_lib \<Rightarrow> 'a metrics_row_scheme list \<Rightarrow> metric \<times> string \<Rightarrow> py_error + hyp_row" where
  "test_metric lib df ml =
     (let metric = fst ml; label = snd ml;
          grp_smart = grp ''SmartRefactor'' metric df;
          grp_trad = grp ''Tradicional'' metric df
      in case shapiro lib grp_smart of Inl e \<Rightarrow> Inl e | Inr p_smart \<Rightarrow>
         (case shapiro lib grp_trad of Inl e \<Rightarrow> Inl e | Inr p_trad \<Rightarrow>
         (let normal = (fl_gt p_smart (Fin (5 / 100)) \<and> fl_gt p_trad (Fin (5 / 100)))
          in if normal then
               (case ttest_ind lib grp_smart grp_trad of Inl e \<Rightarrow> Inl e | Inr sp \<Rightarrow>
               (case math_sqrt (fl_div (fl_add (series_var grp_smart) (series_var grp_trad)) (Fin 2)) of
                  Inl e \<Rightarrow> Inl e
                | Inr d \<Rightarrow>
                    Inr \<lparr>h_metrica = label, h_teste = name_welch,
                         h_estatistica = py_round (fst sp) 3, h_p_valor = py_round (snd sp) 5,
                         h_normal = normal,
                         h_efeito = py_round
                           (fl_div (fl_abs (fl_sub (series_mean grp_smart) (series_mean grp_trad))) d) 3\<rparr>))
             else
               (case mannwhitneyu lib grp_smart grp_trad of Inl e \<Rightarrow> Inl e | Inr sp \<Rightarrow>
               (let z = norm_isf lib (fl_div (snd sp) (Fin 2))
                in Inr \<lparr>h_metrica = label, h_teste = name_mann_whitney,
                        h_estatistica = py_round (fst sp) 3, h_p_valor = py_round (snd sp) 5,
                        h_normal = normal,
                        h_efeito = py_round
                          (fl_div (fl_abs z) (int_sqrt (length grp_smart + length grp_trad))) 3\<rparr>)))))"

text \<open>A \<open>for\<close> loop that appends one result per item and stops at the first exception.\<close>

fun for_each :: "('a \<Rightarrow> py_error + 'b) \<Rightarrow> 'a list \<Rightarrow> py_error + 'b list" where
  "for_each f [] = Inr []"
| "for_each f (x # xs) =
     (case f x of Inl e \<Rightarrow> Inl e
      | Inr y \<Rightarrow> (case for_each f xs of Inl e \<Rightarrow> Inl e | Inr ys \<Rightarrow> Inr (y # ys)))"

definition metric_labels :: "(metric \<times> string) list" where
  "metric_labels =
     [(Tempo_h, ''Tempo (h)''), (Erros, ''Erros Funcionais''), (Design, ''Problemas de Design'')]"

definition hypothesis_tests :: "stats_lib \<Rightarrow> 'a metrics_row_scheme list \<Rightarrow> py_error + hyp_row list" where
  "hypothesis_tests lib df = for_each (test_metric lib df) metric_labels"

text \<open>The rows of a table whose tool field equals a given label.\<close>

definition tool_rows :: "string \<Rightarrow> 'a metrics_row_scheme list \<Rightarrow> 'a metrics_row_scheme list" where
  "tool_rows label df = filter (\<lambda>r. ferramenta r = Some label) df"

text \<open>A float that is not negative: NaN, or a value with \<open>0 <= x\<close>.\<close>

definition not_negative :: "fl \<Rightarrow> bool" where
  "not_negative x = (x = NaN \<or> fl_nonneg x)"

section \<open>load_metrics, load_profile\<close>

text \<open>
  The Python and pandas parsers \<open>load_metrics\<close> relies on are parameters: \<open>py_float\<close>
  is \<open>float\<close> of a string (\<open>None\<close> where it raises ValueError), and \<open>to_numeric\<close> is
  the parser \<open>pd.to_numeric\<close> applies to a string cell (\<open>None\<close> where the string is not
  a number).
\<close>

record py_lib =
  py_float :: "string \<Rightarrow> fl option"
  to_numeric :: "string \<Rightarrow> fl option"

text \<open>
  A row of the metrics CSV as \<open>pd.read_csv\<close> delivers it, under the headers "ID",
  "Tempo (h)", "LOC Modificadas", "Erros Funcionais", "Problemas de Design", "Ferramenta".
\<close>

record raw_metrics_row =
  raw_ID :: cell
  raw_tempo :: cell
  raw_loc :: cell
  raw_erros :: cell
  raw_design :: cell
  raw_ferramenta :: "string option"

text \<open>The table after the coercions and before the final column selection.\<close>

record coerced_row = metrics_row +
  loc_mod :: fl

text \<open>\<open>str.strip()\<close>: drops leading and trailing (ASCII) whitespace.\<close>

definition is_space :: "char \<Rightarrow> bool" where
  "is_space c = (c \<in> {CHR 0x09, CHR 0x0A, CHR 0x0B, CHR 0x0C, CHR 0x0D,
                         CHR 0x1C, CHR 0x1D, CHR 0x1E, CHR 0x1F, CHR 0x20})"

definition strip :: "string \<Rightarrow> string" where
  "strip s = rev (dropWhile is_space (rev (dropWhile is_space s)))"

text \<open>\<open>str.replace(",", ".")\<close>: every comma becomes a dot.\<close>

definition replace_comma :: "string \<Rightarrow> string" where
  "replace_comma s = map (\<lambda>c. if c = CHR '','' then CHR ''.'' else c) s"

text \<open>
  \<open>.astype(str).str.strip().str.replace(",", ".", regex=False).astype(float)\<close> on one
  cell. A string cell is stripped, its commas become dots, and \<open>float\<close> reads the result,
  raising ValueError when it is not a number. A float cell is printed by \<open>str\<close> in its
  round-trip form, which holds no whitespace and no comma and which \<open>float\<close> reads back
  as the same float (NaN as NaN): the chain returns the cell's float.
\<close>

definition float_text :: "string \<Rightarrow> string" where
  "float_text s = replace_comma (strip s)"

fun astype_float :: "py_lib \<Rightarrow> cell \<Rightarrow> py_error + fl" where
  "astype_float py (Flt x) = Inr x"
| "astype_float py (Str s) =
     (case py_float py (float_text s) of None \<Rightarrow> Inl ValueError | Some v \<Rightarrow> Inr v)"

text \<open>
  \<open>pd.to_numeric(..., errors="coerce")\<close> on one cell: a number stays, a string is parsed,
  and a string that is not a number becomes NaN.
\<close>

fun coerce_numeric :: "py_lib \<Rightarrow> cell \<Rightarrow> fl" where
  "coerce_numeric py (Flt x) = x"
| "coerce_numeric py (Str s) = (case to_numeric py s of None \<Rightarrow> NaN | Some v \<Rightarrow> v)"

text \<open>
  \<open>load_metrics\<close>, after \<open>pd.read_csv\<close> and the renaming of the columns. The loop converts
  the column tempo_h, then the column loc_mod; erros and design are coerced; the last
  statement keeps the columns ID, tempo_h, erros, design, ferramenta.
\<close>

definition coerce_columns :: "py_lib \<Rightarrow> raw_metrics_row list \<Rightarrow> py_error + coerced_row list" where
  "coerce_columns py df_raw =
     (case for_each (\<lambda>r. astype_float py (raw_tempo r)) df_raw of Inl e \<Rightarrow> Inl e | Inr tempo \<Rightarrow>
     (case for_each (\<lambda>r. astype_float py (raw_loc r)) df_raw of Inl e \<Rightarrow> Inl e | Inr loc \<Rightarrow>
        Inr (map (\<lambda>(r, t, l).
               \<lparr>ID = raw_ID r, tempo_h = t, erros = coerce_numeric py (raw_erros r),
                design = coerce_numeric py (raw_design r), ferramenta = raw_ferramenta r,
                loc_mod = l\<rparr>)
             (zip df_raw (zip tempo loc)))))"

definition load_metrics :: "py_lib \<Rightarrow> raw_metrics_row list \<Rightarrow> py_error + metrics_row list" where
  "load_metrics py df_raw =
     (case coerce_columns py df_raw of Inl e \<Rightarrow> Inl e
      | Inr df \<Rightarrow> Inr (map metrics_row.truncate df))"

text \<open>
  \<open>load_profile\<close> only renames the columns ("Formacao" to "formacao", ...): on rows with
  named fields it changes nothing.
\<close>

definition load_profile :: "profile_row list \<Rightarrow> profile_row list" where
  "load_profile df = df"

section \<open>The left join on ID\<close>

text \<open>
  \<open>pd.merge(df_metrics, df_profile, on="ID", how="left")\<close>. The rows of the result are the
  metrics rows in their order; each is paired with every profile row of the same ID, in the
  profile's order, and kept once with missing profile columns when there is none.
\<close>

definition join_row :: "metrics_row \<Rightarrow> profile_row option \<Rightarrow> joined_row" where
  "join_row l r =
     \<lparr>ID = ID l, tempo_h = tempo_h l, erros = erros l, design = design l, ferramenta = ferramenta l,
      j_formacao = (case r of None \<Rightarrow> None | Some p \<Rightarrow> formacao p),
      j_experiencia = (case r of None \<Rightarrow> None | Some p \<Rightarrow> experiencia p),
      j_kn_ref = (case r of None \<Rightarrow> None | Some p \<Rightarrow> kn_ref p),
      j_kn_java = (case r of None \<Rightarrow> None | Some p \<Rightarrow> kn_java p)\<rparr>"

definition join_rows :: "metrics_row list \<Rightarrow> profile_row list \<Rightarrow> joined_row list" where
  "join_rows df_metrics df_profile =
     concat (map (\<lambda>l. case filter (\<lambda>p. pID p = ID l) df_profile of
                         [] \<Rightarrow> [join_row l None]
                       | ms \<Rightarrow> map (\<lambda>p. join_row l (Some p)) ms)
                 df_metrics)"

text \<open>
  Before it joins, \<open>pd.merge\<close> checks that the two key columns can be compared. A column
  that \<open>pd.read_csv\<close> delivers is numeric (every cell a number, NaN where the cell is
  empty) or text (dtype object: strings, NaN where the cell is empty); here a column is
  text when it holds a string. With a numeric key column on one side and a text key column
  on the other, \<open>pd.merge\<close> raises ValueError ("You are trying to merge on object and
  int64 columns"), unless one of the two tables has no row, in which case the check is
  skipped.
\<close>

fun is_text :: "cell \<Rightarrow> bool" where
  "is_text (Str s) = True"
| "is_text (Flt x) = False"

definition text_column :: "cell list \<Rightarrow> bool" where
  "text_column cells = list_ex is_text cells"

definition incompatible_keys :: "cell list \<Rightarrow> cell list \<Rightarrow> bool" where
  "incompatible_keys left_keys right_keys =
     (left_keys \<noteq> [] \<and> right_keys \<noteq> [] \<and> text_column left_keys \<noteq> text_column right_keys)"

definition merge_left :: "metrics_row list \<Rightarrow> profile_row list \<Rightarrow> py_error + joined_row list" where
  "merge_left df_metrics df_profile =
     (if incompatible_keys (map ID df_metrics) (map pID df_profile) then Inl ValueError
      else Inr (join_rows df_metrics df_profile))"

text \<open>
  A malformed value: a string cell that the parser of its column does not read as a
  number (\<open>float\<close> for tempo_h and loc_mod, \<open>pd.to_numeric\<close> for erros and design).
\<close>

fun malformed_float :: "py_lib \<Rightarrow> cell \<Rightarrow> bool" where
  "malformed_float py (Str s) = (py_float py (float_text s) = None)"
| "malformed_float py (Flt x) = False"

fun malformed_numeric :: "py_lib \<Rightarrow> cell \<Rightarrow> bool" where
  "malformed_numeric py (Str s) = (to_numeric py s = None)"
| "malformed_numeric py (Flt x) = False"

text \<open>Two raw tables that are equal except, possibly, in the column "LOC Modificadas".\<close>

definition same_but_loc :: "raw_metrics_row list \<Rightarrow> raw_metrics_row list \<Rightarrow> bool" where
  "same_but_loc a b = (map (\<lambda>r. r\<lparr>raw_loc := Flt NaN\<rparr>) a = map (\<lambda>r. r\<lparr>raw_loc := Flt NaN\<rparr>) b)"

section \<open>descriptive_stats\<close>

record desc_row =
  d_ferramenta :: string
  d_n :: nat
  tempo_medio :: fl
  tempo_dp :: fl
  erros_medio :: fl
  erros_dp :: fl
  design_medio :: fl
  design_dp :: fl

text \<open>
  \<open>df.groupby("ferramenta")\<close>: one group per distinct tool, the keys in sorted order; rows
  with a missing tool belong to no group (\<open>dropna=True\<close> is the default).
\<close>

definition group_keys :: "'a metrics_row_scheme list \<Rightarrow> string list" where
  "group_keys df = sort (remdups (map the (filter (\<lambda>t. t \<noteq> None) (map ferramenta df))))"

definition group_rows :: "string \<Rightarrow> 'a metrics_row_scheme list \<Rightarrow> 'a metrics_row_scheme list" where
  "group_rows k df = filter (\<lambda>r. ferramenta r = Some k) df"

text \<open>
  \<open>.agg(...)\<close> with "count", "mean" and "std" (\<open>ddof=1\<close>) per group, then \<open>.round(3)\<close>,
  which rounds the float columns and leaves the integer column \<open>n\<close> as it is.
\<close>

definition descriptive_stats :: "'a metrics_row_scheme list \<Rightarrow> desc_row list" where
  "descriptive_stats df =
     map (\<lambda>k. let g = group_rows k df
               in \<lparr>d_ferramenta = k,
                   d_n = series_count (map tempo_h g),
                   tempo_medio = py_round (series_mean (map tempo_h g)) 3,
                   tempo_dp = py_round (series_std (map tempo_h g)) 3,
                   erros_medio = py_round (series_mean (map erros g)) 3,
                   erros_dp = py_round (series_std (map erros g)) 3,
                   design_medio = py_round (series_mean (map design g)) 3,
                   design_dp = py_round (series_std (map design g)) 3\<rparr>)
         (group_keys df)"

text \<open>
  The textbook statistics, on real numbers: the arithmetic mean, and the sample standard
  deviation with \<open>n - 1\<close> in the divisor. \<open>present\<close> gives the finite values of a column.
\<close>

definition arithmetic_mean :: "real list \<Rightarrow> real" where
  "arithmetic_mean xs = sum_list xs / real (length xs)"

definition sample_std :: "real list \<Rightarrow> real" where
  "sample_std xs =
     sqrt (sum_list (map (\<lambda>x. (x - arithmetic_mean xs)\<^sup>2) xs) / real (length xs - 1))"

fun present :: "fl list \<Rightarrow> real list" where
  "present [] = []"
| "present (Fin x # vs) = x # present vs"
| "present (v # vs) = present vs"

definition no_infinity :: "fl list \<Rightarrow> bool" where
  "no_infinity vs = (PInf \<notin> set vs \<and> NInf \<notin> set vs)"

text \<open>
  Rounding to \<open>n\<close> decimal places: \<open>y\<close> is \<open>x\<close> rounded when \<open>y\<close> is a whole number \<open>k\<close> of
  units \<open>10 ** -n\<close>, no multiple of the unit is nearer to \<open>x\<close> (the distance is at most
  half a unit), and \<open>k\<close> is even when \<open>x\<close> lies exactly between two multiples. A reported
  statistic is NaN when the statistic does not exist, and the statistic rounded to three
  decimals when it does. The mean exists for one value or more, the sample standard
  deviation for two or more.
\<close>

definition rounded_to :: "nat \<Rightarrow> real \<Rightarrow> real \<Rightarrow> bool" where
  "rounded_to n x y =
     (\<exists>k::int. y = of_int k / 10 ^ n \<and> \<bar>y - x\<bar> \<le> 1 / (2 * 10 ^ n) \<and>
        (\<bar>y - x\<bar> = 1 / (2 * 10 ^ n) \<longrightarrow> even k))"

fun reported :: "real option \<Rightarrow> fl \<Rightarrow> bool" where
  "reported None v = (v = NaN)"
| "reported (Some x) v = (\<exists>y. v = Fin y \<and> rounded_to 3 x y)"

definition mean_of :: "fl list \<Rightarrow> real option" where
  "mean_of vs = (if present vs = [] then None else Some (arithmetic_mean (present vs)))"

definition std_of :: "fl list \<Rightarrow> real option" where
  "std_of vs = (if length (present vs) < 2 then None else Some (sample_std (present vs)))"

section \<open>map_ordinal, profile_influence\<close>

text \<open>
  \<open>{cat: idx for idx, cat in enumerate(order)}\<close>: the entries are stored in the order of
  the list, a later entry replacing an earlier one with the same key.
\<close>

definition dict_put :: "(string \<rightharpoonup> nat) \<Rightarrow> nat \<times> string \<Rightarrow> (string \<rightharpoonup> nat)" where
  "dict_put d item = d(snd item \<mapsto> fst item)"

definition ordinal_dict :: "string list \<Rightarrow> (string \<rightharpoonup> nat)" where
  "ordinal_dict order = foldl dict_put Map.empty (enumerate 0 order)"

text \<open>
  \<open>series.map(dict).astype(float)\<close>: a value that is no key of the dict, a missing value
  included, becomes NaN.
\<close>

definition map_ordinal :: "string option list \<Rightarrow> string list \<Rightarrow> fl list" where
  "map_ordinal series order =
     map (\<lambda>v. case v of None \<Rightarrow> NaN
               | Some s \<Rightarrow> (case ordinal_dict order s of None \<Rightarrow> NaN | Some idx \<Rightarrow> Fin (real idx)))
         series"

text \<open>
  \<open>stats.spearmanr(a, b, nan_policy="omit")\<close>: the observations with a NaN in either
  variable are left out, and the correlation is computed on the rest.
\<close>

definition spearmanr_omit :: "stats_lib \<Rightarrow> fl list \<Rightarrow> fl list \<Rightarrow> py_error + fl \<times> fl" where
  "spearmanr_omit lib a b = spearmanr lib (filter (\<lambda>(x, y). x \<noteq> NaN \<and> y \<noteq> NaN) (zip a b))"

definition exp_order :: "string list" where
  "exp_order = [''0-1 anos'', ''1-2 anos'', ''3-5 anos'', ''6+ anos'']"

text \<open>
  "Nenhum", "Basico", "Razoavel", "Avancado", the second and third with an acute accent on
  the a and the last with a cedilla, in UTF-8.
\<close>

definition kn_order :: "string list" where
  "kn_order = [''Nenhum'', ''B'' @ [CHR 0xC3, CHR 0xA1] @ ''sico'',
               ''Razo'' @ [CHR 0xC3, CHR 0xA1] @ ''vel'', ''Avan'' @ [CHR 0xC3, CHR 0xA7] @ ''ado'']"

text \<open>
  The three assignments \<open>df["exp_num"] = ...\<close>, \<open>df["kn_ref_num"] = ...\<close>,
  \<open>df["kn_java_num"] = ...\<close> add three columns to the caller's table.
\<close>

record numbered_row = joined_row +
  exp_num :: fl
  kn_ref_num :: fl
  kn_java_num :: fl

definition add_ordinal_columns :: "joined_row list \<Rightarrow> numbered_row list" where
  "add_ordinal_columns df =
     map (\<lambda>(r, e, kr, kj).
            \<lparr>ID = ID r, tempo_h = tempo_h r, erros = erros r, design = design r,
             ferramenta = ferramenta r, j_formacao = j_formacao r,
             j_experiencia = j_experiencia r, j_kn_ref = j_kn_ref r, j_kn_java = j_kn_java r,
             exp_num = e, kn_ref_num = kr, kn_java_num = kj\<rparr>)
         (zip df (zip (map_ordinal (map j_experiencia df) exp_order)
                 (zip (map_ordinal (map j_kn_ref df) kn_order)
                      (map_ordinal (map j_kn_java df) kn_order))))"

record inf_row =
  i_variavel :: string
  i_metrica :: string
  i_teste :: string
  i_coeficiente :: fl
  i_p_valor :: fl

text \<open>
  The labels, in UTF-8 with their accented letters: "Experiencia", "Conhecimento
  Refatoracao", "Conhecimento Java", "Spearman" followed by the letter rho,
  "Kruskal-Wallis" with the hyphen U+2011, and "Experiencia (categorias)".
\<close>

definition label_experiencia :: string where
  "label_experiencia = ''Experi'' @ [CHR 0xC3, CHR 0xAA] @ ''ncia''"

definition label_kn_ref :: string where
  "label_kn_ref = ''Conhecimento Refatora'' @ [CHR 0xC3, CHR 0xA7, CHR 0xC3, CHR 0xA3] @ ''o''"

definition label_kn_java :: string where
  "label_kn_java = ''Conhecimento Java''"

definition name_spearman :: string where
  "name_spearman = ''Spearman '' @ [CHR 0xCF, CHR 0x81]"

definition name_kruskal :: string where
  "name_kruskal = ''Kruskal'' @ [CHR 0xE2, CHR 0x80, CHR 0x91] @ ''Wallis''"

definition label_categorias :: string where
  "label_categorias = label_experiencia @ '' (categorias)''"

text \<open>The two nested loops over the ordinal columns and the metrics erros, design.\<close>

definition ordinal_cols :: "((numbered_row \<Rightarrow> fl) \<times> string) list" where
  "ordinal_cols = [(exp_num, label_experiencia), (kn_ref_num, label_kn_ref), (kn_java_num, label_kn_java)]"

definition influence_metrics :: "(metric \<times> string) list" where
  "influence_metrics = [(Erros, ''Erros''), (Design, ''Design'')]"

definition spearman_items :: "((numbered_row \<Rightarrow> fl) \<times> string \<times> metric \<times> string) list" where
  "spearman_items =
     concat (map (\<lambda>(ordinal_col, label).
                    map (\<lambda>(metric, metric_label). (ordinal_col, label, metric, metric_label))
                        influence_metrics)
                 ordinal_cols)"

definition spearman_row ::
  "stats_lib \<Rightarrow> numbered_row list \<Rightarrow> (numbered_row \<Rightarrow> fl) \<times> string \<times> metric \<times> string
     \<Rightarrow> py_error + inf_row" where
  "spearman_row lib df item =
     (case item of (ordinal_col, label, metric, metric_label) \<Rightarrow>
        (case spearmanr_omit lib (map ordinal_col df) (map (col metric) df) of
           Inl e \<Rightarrow> Inl e
         | Inr cp \<Rightarrow>
             Inr \<lparr>i_variavel = label, i_metrica = metric_label, i_teste = name_spearman,
                  i_coeficiente = py_round (fst cp) 3, i_p_valor = py_round (snd cp) 5\<rparr>))"

text \<open>
  The groups of the Kruskal-Wallis test: for each level of \<open>exp_order\<close> that has a row
  (\<open>not df[df["experiencia"]==lvl].empty\<close>), the non-null values of the metric in the rows
  of the level. The row of the test is appended only when there are two groups or more.
\<close>

definition level_rows :: "string \<Rightarrow> 'a joined_row_scheme list \<Rightarrow> 'a joined_row_scheme list" where
  "level_rows lvl df = bool_index df (eq_mask j_experiencia lvl df)"

definition kruskal_groups :: "metric \<Rightarrow> 'a joined_row_scheme list \<Rightarrow> fl list list" where
  "kruskal_groups metric df =
     map (\<lambda>lvl. dropna (map (col metric) (level_rows lvl df)))
         (filter (\<lambda>lvl. level_rows lvl df \<noteq> []) exp_order)"

definition kruskal_rows ::
  "stats_lib \<Rightarrow> 'a joined_row_scheme list \<Rightarrow> metric \<times> string \<Rightarrow> py_error + inf_row list" where
  "kruskal_rows lib df item =
     (case item of (metric, metric_label) \<Rightarrow>
        (let groups = kruskal_groups metric df
         in if 2 \<le> length groups then
              (case kruskal lib groups of
                 Inl e \<Rightarrow> Inl e
               | Inr sp \<Rightarrow>
                   Inr [\<lparr>i_variavel = label_categorias, i_metrica = metric_label,
                         i_teste = name_kruskal,
                         i_coeficiente = py_round (fst sp) 3, i_p_valor = py_round (snd sp) 5\<rparr>])
            else Inr []))"

text \<open>
  \<open>profile_influence\<close>: the table with its three new columns (the argument is changed in
  place, whether or not a later call raises), and the result rows or the exception.
\<close>

definition influence_rows :: "stats_lib \<Rightarrow> numbered_row list \<Rightarrow> py_error + inf_row list" where
  "influence_rows lib df =
     (case for_each (spearman_row lib df) spearman_items of
        Inl e \<Rightarrow> Inl e
      | Inr results \<Rightarrow>
          (case for_each (kruskal_rows lib df) influence_metrics of
             Inl e \<Rightarrow> Inl e
           | Inr extra \<Rightarrow> Inr (results @ concat extra)))"

definition profile_influence ::
  "stats_lib \<Rightarrow> joined_row list \<Rightarrow> numbered_row list \<times> (py_error + inf_row list)" where
  "profile_influence lib df =
     (let df' = add_ordinal_columns df in (df', influence_rows lib df'))"



definition nonempty_levels :: "'a joined_row_scheme list \<Rightarrow> nat" where
  "nonempty_levels df = length (filter (\<lambda>lvl. Some lvl \<in> j_experiencia ` set df) exp_order)"

section \<open>profile_descriptive, create_boxplots, main\<close>

text \<open>
  \<open>value_counts().to_dict()\<close>: the number of occurrences of every value that occurs,
  missing values not counted. \<open>profile_descriptive\<close> collects the dicts of the four
  profile columns.
\<close>

definition value_counts :: "string option list \<Rightarrow> (string \<rightharpoonup> nat)" where
  "value_counts xs = (\<lambda>v. if Some v \<in> set xs then Some (count_list xs (Some v)) else None)"

record profile_counts =
  c_formacao :: "string \<rightharpoonup> nat"
  c_experiencia :: "string \<rightharpoonup> nat"
  c_kn_ref :: "string \<rightharpoonup> nat"
  c_kn_java :: "string \<rightharpoonup> nat"

definition profile_descriptive :: "profile_row list \<Rightarrow> profile_counts" where
  "profile_descriptive df_profile =
     \<lparr>c_formacao = value_counts (map formacao df_profile),
      c_experiencia = value_counts (map experiencia df_profile),
      c_kn_ref = value_counts (map kn_ref df_profile),
      c_kn_java = value_counts (map kn_java df_profile)\<rparr>"

text \<open>
  The file system as far as the script touches it: the directories that exist, and the
  files in the order they were written, each with what was written. A table is written as
  the table itself (the CSV text is the library's), a chart as the values it plots per tool.
\<close>

datatype content =
    DescriptiveCsv "desc_row list"
  | HypothesisCsv "hyp_row list"
  | ProfileCsv profile_counts
  | InfluenceCsv "inf_row list"
  | BoxplotPng string "(string \<times> fl list) list"

record filesystem =
  dirs :: "string set"
  written :: "(string \<times> content) list"

text \<open>
  \<open>Path.mkdir(parents=True, exist_ok=True)\<close>: afterwards the directory exists; it raises
  FileExistsError when the path is a file. \<open>to_csv\<close> and \<open>savefig\<close> write a file into a
  directory and raise FileNotFoundError when the directory does not exist.
\<close>

definition mkdir_exist_ok :: "string \<Rightarrow> filesystem \<Rightarrow> py_error + filesystem" where
  "mkdir_exist_ok path fs =
     (if path \<in> fst ` set (written fs) then Inl FileExistsError
      else Inr (fs\<lparr>dirs := insert path (dirs fs)\<rparr>))"

definition write_file :: "string \<Rightarrow> string \<Rightarrow> content \<Rightarrow> filesystem \<Rightarrow> py_error + filesystem" where
  "write_file dir name c fs =
     (if dir \<in> dirs fs then Inr (fs\<lparr>written := written fs @ [(dir @ ''/'' @ name, c)]\<rparr>)
      else Inl FileNotFoundError)"

definition out_dir :: string where
  "out_dir = ''results''"

fun metric_name :: "metric \<Rightarrow> string" where
  "metric_name Tempo_h = ''tempo_h''"
| "metric_name Erros = ''erros''"
| "metric_name Design = ''design''"

text \<open>
  \<open>create_boxplots\<close>: for each metric, the box plot of the metric by tool is saved as
  \<open>boxplot_<metric>.png\<close>. The result is the file system reached and the exception, if
  one was raised.
\<close>

definition boxplot :: "metric \<Rightarrow> string \<Rightarrow> 'a metrics_row_scheme list \<Rightarrow> content" where
  "boxplot m label df = BoxplotPng label (map (\<lambda>k. (k, map (col m) (group_rows k df))) (group_keys df))"

fun save_boxplots ::
  "(metric \<times> string) list \<Rightarrow> 'a metrics_row_scheme list \<Rightarrow> filesystem \<Rightarrow> filesystem \<times> py_error option" where
  "save_boxplots [] df fs = (fs, None)"
| "save_boxplots (ml # rest) df fs =
     (case write_file out_dir (''boxplot_'' @ metric_name (fst ml) @ ''.png'') (boxplot (fst ml) (snd ml) df) fs of
        Inl e \<Rightarrow> (fs, Some e)
      | Inr fs' \<Rightarrow> save_boxplots rest df fs')"

definition create_boxplots :: "'a metrics_row_scheme list \<Rightarrow> filesystem \<Rightarrow> filesystem \<times> py_error option" where
  "create_boxplots df fs = save_boxplots metric_labels df fs"

text \<open>
  \<open>main\<close>, given the two tables as \<open>pd.read_csv\<close> delivers them. The messages printed to
  the standard output are left out. \<open>script\<close> is the module run as a program: the
  \<open>mkdir\<close> at module level, then \<open>main()\<close>.
\<close>

definition main ::
  "py_lib \<Rightarrow> stats_lib \<Rightarrow> raw_metrics_row list \<Rightarrow> profile_row list \<Rightarrow> filesystem
     \<Rightarrow> filesystem \<times> py_error option" where
  "main py lib metrics_csv profile_csv fs =
     (case load_metrics py metrics_csv of Inl e \<Rightarrow> (fs, Some e) | Inr df_metrics \<Rightarrow>
     (let df_profile = load_profile profile_csv
      in case merge_left df_metrics df_profile of Inl e \<Rightarrow> (fs, Some e) | Inr df \<Rightarrow>
         (case write_file out_dir ''descriptive_stats.csv'' (DescriptiveCsv (descriptive_stats df)) fs of
            Inl e \<Rightarrow> (fs, Some e) | Inr fs1 \<Rightarrow>
         (case hypothesis_tests lib df of Inl e \<Rightarrow> (fs1, Some e) | Inr htest \<Rightarrow>
         (case write_file out_dir ''hypothesis_results.csv'' (HypothesisCsv htest) fs1 of
            Inl e \<Rightarrow> (fs1, Some e) | Inr fs2 \<Rightarrow>
         (case write_file out_dir ''profile_stats.csv'' (ProfileCsv (profile_descriptive df_profile)) fs2 of
            Inl e \<Rightarrow> (fs2, Some e) | Inr fs3 \<Rightarrow>
         (case snd (profile_influence lib df) of Inl e \<Rightarrow> (fs3, Some e) | Inr pinf \<Rightarrow>
         (case write_file out_dir ''profile_influence.csv'' (InfluenceCsv pinf) fs3 of
            Inl e \<Rightarrow> (fs3, Some e) | Inr fs4 \<Rightarrow>
            create_boxplots (fst (profile_influence lib df)) fs4))))))))"

definition script ::
  "py_lib \<Rightarrow> stats_lib \<Rightarrow> raw_metrics_row list \<Rightarrow> profile_row list \<Rightarrow> filesystem
     \<Rightarrow> filesystem \<times> py_error option" where
  "script py lib metrics_csv profile_csv fs =
     (case mkdir_exist_ok out_dir fs of
        Inl e \<Rightarrow> (fs, Some e)
      | Inr fs' \<Rightarrow> main py lib metrics_csv profile_csv fs')"


section \<open>Sample data for evaluating the model\<close>

text \<open>
  A stand-in for the statistics library whose routines return fixed results, and a small
  table. They serve to run the model on concrete inputs; every general theorem below holds
  for all libraries.
\<close>

definition const_lib :: "fl \<Rightarrow> fl \<times> fl \<Rightarrow> fl \<times> fl \<Rightarrow> fl \<Rightarrow> stats_lib" where
  "const_lib p tt mw z =
     \<lparr>shapiro = (\<lambda>xs. Inr p),
      ttest_ind = (\<lambda>a b. Inr tt),
      mannwhitneyu = (\<lambda>a b. Inr mw),
      norm_isf = (\<lambda>q. z),
      spearmanr = (\<lambda>ps. Inr (Fin (1 / 2), Fin (1 / 10))),
      kruskal = (\<lambda>gs. Inr (Fin 1, Fin (1 / 2)))\<rparr>"

definition mrow :: "real \<Rightarrow> real \<Rightarrow> string \<Rightarrow> metrics_row" where
  "mrow i t tool = \<lparr>ID = Flt (Fin i), tempo_h = Fin t, erros = Fin t, design = Fin t, ferramenta = Some tool\<rparr>"

definition sample_df :: "metrics_row list" where
  "sample_df = [mrow 1 1 ''SmartRefactor'', mrow 2 3 ''Tradicional'', mrow 3 2 ''SmartRefactor'',
                mrow 4 4 ''Tradicional'', mrow 5 3 ''SmartRefactor'', mrow 6 5 ''Tradicional'', mrow 7 9 ''Outra'']"

definition welch_row :: "string \<Rightarrow> hyp_row" where
  "welch_row label = \<lparr>h_metrica = label, h_teste = name_welch, h_estatistica = Fin 2,
     h_p_valor = Fin (1 / 100), h_normal = True, h_efeito = Fin 2\<rparr>"

definition const_df :: "metrics_row list" where
  "const_df = [mrow 1 1 ''SmartRefactor'', mrow 2 1 ''SmartRefactor'', mrow 3 1 ''SmartRefactor'',
               mrow 4 1 ''Tradicional'', mrow 5 1 ''Tradicional'', mrow 6 1 ''Tradicional'']"

definition nan_row :: "string \<Rightarrow> hyp_row" where
  "nan_row label = \<lparr>h_metrica = label, h_teste = name_welch, h_estatistica = NaN,
     h_p_valor = NaN, h_normal = True, h_efeito = NaN\<rparr>"

text \<open>
  A stand-in for \<open>float\<close> and for the parser of \<open>pd.to_numeric\<close>: it reads the plain
  decimal literals (an optional minus sign, digits, optionally a dot and more digits) and
  "nan", and rejects every other string. It agrees with Python on the strings of the
  sample tables.
\<close>

definition is_digit :: "char \<Rightarrow> bool" where
  "is_digit c = (c \<in> set ''0123456789'')"

definition digits_value :: "string \<Rightarrow> nat" where
  "digits_value s = foldl (\<lambda>a c. 10 * a + (of_char c - 48)) 0 s"

definition unsigned_decimal :: "string \<Rightarrow> real option" where
  "unsigned_decimal s =
     (let ip = takeWhile (\<lambda>c. c \<noteq> CHR ''.'') s; rest = dropWhile (\<lambda>c. c \<noteq> CHR ''.'') s
      in if ip \<noteq> [] \<and> list_all is_digit ip then
           (if rest = [] then Some (real (digits_value ip))
            else if tl rest \<noteq> [] \<and> list_all is_digit (tl rest) then
              Some (real (digits_value ip) + real (digits_value (tl rest)) / 10 ^ length (tl rest))
            else None)
         else None)"

definition decimal_float :: "string \<Rightarrow> fl option" where
  "decimal_float s =
     (if s = ''nan'' then Some NaN
      else case s of
             [] \<Rightarrow> None
           | c # t \<Rightarrow> if c = CHR ''-'' then map_option (\<lambda>x. Fin (- x)) (unsigned_decimal t)
                      else map_option Fin (unsigned_decimal s))"

definition decimal_py :: py_lib where
  "decimal_py = \<lparr>py_float = decimal_float, to_numeric = decimal_float\<rparr>"

definition raw_row :: "real \<Rightarrow> cell \<Rightarrow> cell \<Rightarrow> cell \<Rightarrow> cell \<Rightarrow> string \<Rightarrow> raw_metrics_row" where
  "raw_row i t l e d tool =
     \<lparr>raw_ID = Flt (Fin i), raw_tempo = t, raw_loc = l, raw_erros = e, raw_design = d,
      raw_ferramenta = Some tool\<rparr>"

definition raw_sample :: "raw_metrics_row list" where
  "raw_sample = [raw_row 1 (Str '' 1,5'') (Str ''120'') (Str ''abc'') (Flt (Fin 2)) ''SmartRefactor'']"

definition raw_sample_loc :: "raw_metrics_row list" where
  "raw_sample_loc = [raw_row 1 (Str '' 1,5'') (Str ''999'') (Str ''abc'') (Flt (Fin 2)) ''SmartRefactor'']"

definition raw_bad_time :: "raw_metrics_row list" where
  "raw_bad_time = [raw_row 1 (Str ''1h30'') (Str ''120'') (Str ''0'') (Str ''2'') ''SmartRefactor'']"

definition loaded_sample :: "metrics_row list" where
  "loaded_sample = [\<lparr>ID = Flt (Fin 1), tempo_h = Fin (3 / 2), erros = NaN, design = Fin 2,
                     ferramenta = Some ''SmartRefactor''\<rparr>]"

definition prow :: "real \<Rightarrow> string \<Rightarrow> string \<Rightarrow> string \<Rightarrow> string \<Rightarrow> profile_row" where
  "prow i f e kr kj =
     \<lparr>pID = Flt (Fin i), formacao = Some f, experiencia = Some e, kn_ref = Some kr, kn_java = Some kj\<rparr>"

definition sample_profile :: "profile_row list" where
  "sample_profile =
     [prow 1 ''Graduacao'' ''0-1 anos'' ''Nenhum'' ''Nenhum'',
      prow 2 ''Graduacao'' ''1-2 anos'' ''Nenhum'' ''Nenhum'',
      prow 3 ''Mestrado'' ''3-5 anos'' ''Nenhum'' ''Nenhum'',
      prow 4 ''Mestrado'' ''6+ anos'' ''Nenhum'' ''Nenhum'',
      prow 5 ''Graduacao'' ''0-1 anos'' ''Nenhum'' ''Nenhum'',
      prow 6 ''Doutorado'' ''1-2 anos'' ''Nenhum'' ''Nenhum'']"

definition two_metrics :: "metrics_row list" where
  "two_metrics = [mrow 1 1 ''SmartRefactor'', mrow 9 3 ''Tradicional'']"

definition sample_lib :: stats_lib where
  "sample_lib = const_lib (Fin 1) (Fin 2, Fin (1 / 100)) (Fin 3, Fin (1 / 5)) (Fin 1)"

definition sample_joined :: "joined_row list" where
  "sample_joined = join_rows sample_df sample_profile"

definition one_level_joined :: "joined_row list" where
  "one_level_joined = join_rows two_metrics sample_profile"

definition spearman_sample :: "string \<Rightarrow> string \<Rightarrow> inf_row" where
  "spearman_sample l ml = \<lparr>i_variavel = l, i_metrica = ml, i_teste = name_spearman,
     i_coeficiente = Fin (1 / 2), i_p_valor = Fin (1 / 10)\<rparr>"

definition kruskal_sample :: "string \<Rightarrow> inf_row" where
  "kruskal_sample ml = \<lparr>i_variavel = label_categorias, i_metrica = ml, i_teste = name_kruskal,
     i_coeficiente = Fin 1, i_p_valor = Fin (1 / 2)\<rparr>"

definition six_spearman :: "inf_row list" where
  "six_spearman =
     [spearman_sample label_experiencia ''Erros'', spearman_sample label_experiencia ''Design'',
      spearman_sample label_kn_ref ''Erros'', spearman_sample label_kn_ref ''Design'',
      spearman_sample label_kn_java ''Erros'', spearman_sample label_kn_java ''Design'']"




definition text_profile :: "profile_row list" where
  "text_profile =
     [\<lparr>pID = Str ''P1'', formacao = Some ''Graduacao'', experiencia = Some ''0-1 anos'',
       kn_ref = Some ''Nenhum'', kn_java = Some ''Nenhum''\<rparr>]"

definition thirds_df :: "metrics_row list" where
  "thirds_df = [mrow 1 0 ''SmartRefactor'', mrow 2 0 ''SmartRefactor'', mrow 3 1 ''SmartRefactor'']"

section \<open>Properties of hypothesis_tests\<close>

lemma bool_index_eq_mask:
  "bool_index df (eq_mask column label df) = filter (\<lambda>r. column r = Some label) df"
  by (induction df) (simp_all add: bool_index_def eq_mask_def)

lemma for_each_Inr:
  "for_each f xs = Inr ys \<Longrightarrow> length ys = length xs \<and> (\<forall>i<length xs. f (xs ! i) = Inr (ys ! i))"
proof (induction xs arbitrary: ys)
  case Nil
  then show ?case by simp
next
  case (Cons x xs)
  from Cons.prems obtain y ys' where fx: "f x = Inr y" and r: "for_each f xs = Inr ys'" and ys: "ys = y # ys'"
    by (auto split: sum.splits)
  from Cons.IH [OF r] have len: "length ys' = length xs" and ih: "\<forall>i<length xs. f (xs ! i) = Inr (ys' ! i)"
    by simp_all
  show ?case
  proof (intro conjI allI impI)
    show "length ys = length (x # xs)" using len ys by simp
  next
    fix i assume "i < length (x # xs)"
    then show "f ((x # xs) ! i) = Inr (ys ! i)"
      using fx ih ys by (cases i) simp_all
  qed
qed

lemma test_metric_selection:
  assumes "test_metric lib df (m, l) = Inr r"
  shows "\<exists>p_smart p_trad.
           shapiro lib (grp ''SmartRefactor'' m df) = Inr p_smart \<and>
           shapiro lib (grp ''Tradicional'' m df) = Inr p_trad \<and>
           h_normal r = (fl_gt p_smart (Fin (5 / 100)) \<and> fl_gt p_trad (Fin (5 / 100))) \<and>
           h_teste r = (if h_normal r then name_welch else name_mann_whitney) \<and>
           (\<exists>sp. (if h_normal r then ttest_ind lib else mannwhitneyu lib)
                    (grp ''SmartRefactor'' m df) (grp ''Tradicional'' m df) = Inr sp \<and>
                 h_estatistica r = py_round (fst sp) 3 \<and> h_p_valor r = py_round (snd sp) 5)"
  using assms unfolding test_metric_def Let_def
  by (auto split: sum.splits if_splits)

lemma names_differ: "name_welch \<noteq> name_mann_whitney"
  by (simp add: name_welch_def name_mann_whitney_def)

lemma rint_numeral: "rint (numeral k) = numeral k" "rint 0 = 0" "rint 1 = 1"
  by (simp_all add: rint_def Let_def)

lemma rint_nonneg: "0 \<le> x \<Longrightarrow> 0 \<le> rint x"
  by (auto simp: rint_def Let_def)

lemma grp_sample:
  "grp ''SmartRefactor'' m sample_df = [Fin 1, Fin 2, Fin 3]"
  "grp ''Tradicional'' m sample_df = [Fin 3, Fin 4, Fin 5]"
  by (cases m; simp add: grp_def bool_index_eq_mask sample_df_def mrow_def)+

lemma sample_moments:
  "series_var [Fin 1, Fin 2, Fin 3] = Fin 1" "series_mean [Fin 1, Fin 2, Fin 3] = Fin 2"
  "series_var [Fin 3, Fin 4, Fin 5] = Fin 1" "series_mean [Fin 3, Fin 4, Fin 5] = Fin 4"
  by (simp_all add: series_var_def series_mean_def dropna_def fl_sum_def fl_sub_def Let_def)

lemma test_metric_sample:
  "test_metric (const_lib (Fin 1) (Fin 2, Fin (1 / 100)) (Fin 3, Fin (1 / 5)) (Fin 1)) sample_df (m, l)
     = Inr (welch_row l)"
  by (simp add: test_metric_def grp_sample const_lib_def Let_def sample_moments fl_sub_def
      welch_row_def rint_numeral)

lemma hypothesis_tests_sample:
  "hypothesis_tests (const_lib (Fin 1) (Fin 2, Fin (1 / 100)) (Fin 3, Fin (1 / 5)) (Fin 1)) sample_df
     = Inr [welch_row ''Tempo (h)'', welch_row ''Erros Funcionais'', welch_row ''Problemas de Design'']"
  by (simp add: hypothesis_tests_def metric_labels_def test_metric_sample)

text \<open>
  Claim C1. Whenever \<open>hypothesis_tests\<close> returns, it returns three rows, one per metric in
  the order tempo_h, erros, design, and for each of them: both Shapiro-Wilk calls returned
  p-values; the field "Normal?" is the conjunction "both p-values are strictly greater than
  0.05"; the test named in the row is Welch's t test exactly when that conjunction holds and
  the Mann-Whitney test exactly when it does not; and the statistic and p-value of the row
  are the rounded results of the routine so selected, applied to the two groups.
\<close>

theorem hypothesis_tests_normality_gate:
  assumes "hypothesis_tests lib df = Inr rows"
  shows "length rows = 3 \<and>
         (\<forall>i<3. \<exists>p_smart p_trad.
            shapiro lib (grp ''SmartRefactor'' (fst (metric_labels ! i)) df) = Inr p_smart \<and>
            shapiro lib (grp ''Tradicional'' (fst (metric_labels ! i)) df) = Inr p_trad \<and>
            h_normal (rows ! i) = (fl_gt p_smart (Fin (5 / 100)) \<and> fl_gt p_trad (Fin (5 / 100))) \<and>
            (h_teste (rows ! i) = name_welch) = h_normal (rows ! i) \<and>
            (h_teste (rows ! i) = name_mann_whitney) = (\<not> h_normal (rows ! i)) \<and>
            (\<exists>sp. (if h_normal (rows ! i) then ttest_ind lib else mannwhitneyu lib)
                     (grp ''SmartRefactor'' (fst (metric_labels ! i)) df)
                     (grp ''Tradicional'' (fst (metric_labels ! i)) df) = Inr sp \<and>
                  h_estatistica (rows ! i) = py_round (fst sp) 3 \<and>
                  h_p_valor (rows ! i) = py_round (snd sp) 5))"
proof -
  have len_labels: "length metric_labels = 3"
    by (simp add: metric_labels_def)
  from for_each_Inr [OF assms [unfolded hypothesis_tests_def]]
  have len: "length rows = 3"
    and each: "\<forall>i<3. test_metric lib df (metric_labels ! i) = Inr (rows ! i)"
    using len_labels by simp_all
  have "\<exists>p_smart p_trad.
            shapiro lib (grp ''SmartRefactor'' (fst (metric_labels ! i)) df) = Inr p_smart \<and>
            shapiro lib (grp ''Tradicional'' (fst (metric_labels ! i)) df) = Inr p_trad \<and>
            h_normal (rows ! i) = (fl_gt p_smart (Fin (5 / 100)) \<and> fl_gt p_trad (Fin (5 / 100))) \<and>
            (h_teste (rows ! i) = name_welch) = h_normal (rows ! i) \<and>
            (h_teste (rows ! i) = name_mann_whitney) = (\<not> h_normal (rows ! i)) \<and>
            (\<exists>sp. (if h_normal (rows ! i) then ttest_ind lib else mannwhitneyu lib)
                     (grp ''SmartRefactor'' (fst (metric_labels ! i)) df)
                     (grp ''Tradicional'' (fst (metric_labels ! i)) df) = Inr sp \<and>
                  h_estatistica (rows ! i) = py_round (fst sp) 3 \<and>
                  h_p_valor (rows ! i) = py_round (snd sp) 5)" if "i < 3" for i
  proof -
    from each that have "test_metric lib df (fst (metric_labels ! i), snd (metric_labels ! i)) = Inr (rows ! i)"
      by simp
    from test_metric_selection [OF this] names_differ show ?thesis
      by (cases "h_normal (rows ! i)") auto
  qed
  with len show ?thesis by blast
qed

theorem hypothesis_tests_normality_gate_witness:
  "hypothesis_tests (const_lib (Fin 1) (Fin 2, Fin (1 / 100)) (Fin 3, Fin (1 / 5)) (Fin 1)) sample_df
     = Inr [welch_row ''Tempo (h)'', welch_row ''Erros Funcionais'', welch_row ''Problemas de Design'']
   \<and> h_normal (welch_row ''Tempo (h)'') \<and> h_teste (welch_row ''Tempo (h)'') = name_welch"
  using hypothesis_tests_normality_gate [OF hypothesis_tests_sample]
  by (simp add: hypothesis_tests_sample welch_row_def)

lemma not_negative_abs: "not_negative (fl_abs x)"
  by (cases x) (simp_all add: not_negative_def)

lemma not_negative_math_sqrt: "math_sqrt a = Inr d \<Longrightarrow> not_negative d"
  by (cases a) (auto simp: not_negative_def split: if_splits)

lemma not_negative_int_sqrt: "not_negative (int_sqrt n)"
  by (simp add: not_negative_def int_sqrt_def)

lemma not_negative_div: "not_negative a \<Longrightarrow> not_negative b \<Longrightarrow> not_negative (fl_div a b)"
  by (cases a; cases b) (auto simp: not_negative_def)

lemma not_negative_round: "not_negative a \<Longrightarrow> not_negative (py_round a n)"
  by (cases a) (auto simp: not_negative_def intro!: divide_nonneg_nonneg rint_nonneg)

lemma test_metric_effect:
  assumes "test_metric lib df ml = Inr r"
  shows "not_negative (h_efeito r)"
  using assms unfolding test_metric_def Let_def
  by (auto split: sum.splits if_splits
      intro!: not_negative_round not_negative_div not_negative_abs not_negative_int_sqrt
      dest: not_negative_math_sqrt)

text \<open>
  Claim C10, as amended. In every row that \<open>hypothesis_tests\<close> returns, the effect size is
  never negative: it is NaN, or a float with \<open>0 <= effect\<close> (plus infinity included).
  Both branches take the absolute value of the numerator, the divisor is a square root,
  and rounding keeps the sign.
\<close>

theorem hypothesis_tests_effect_not_negative:
  assumes "hypothesis_tests lib df = Inr rows"
  shows "\<forall>r\<in>set rows. h_efeito r = NaN \<or> fl_nonneg (h_efeito r)"
proof
  fix r assume "r \<in> set rows"
  then obtain i where i: "i < length rows" and r: "r = rows ! i"
    by (auto simp: in_set_conv_nth)
  from for_each_Inr [OF assms [unfolded hypothesis_tests_def]] i
  have "test_metric lib df (metric_labels ! i) = Inr (rows ! i)" by simp
  from test_metric_effect [OF this] r show "h_efeito r = NaN \<or> fl_nonneg (h_efeito r)"
    by (simp add: not_negative_def)
qed

theorem hypothesis_tests_effect_not_negative_witness:
  "hypothesis_tests (const_lib (Fin 1) (Fin 2, Fin (1 / 100)) (Fin 3, Fin (1 / 5)) (Fin 1)) sample_df
     = Inr [welch_row ''Tempo (h)'', welch_row ''Erros Funcionais'', welch_row ''Problemas de Design'']
   \<and> fl_nonneg (h_efeito (welch_row ''Tempo (h)''))"
  using hypothesis_tests_effect_not_negative [OF hypothesis_tests_sample]
  by (simp add: hypothesis_tests_sample welch_row_def)

lemma grp_const:
  "grp ''SmartRefactor'' m const_df = [Fin 1, Fin 1, Fin 1]"
  "grp ''Tradicional'' m const_df = [Fin 1, Fin 1, Fin 1]"
  by (cases m; simp add: grp_def bool_index_eq_mask const_df_def mrow_def)+

lemma const_moments:
  "series_var [Fin 1, Fin 1, Fin 1] = Fin 0" "series_mean [Fin 1, Fin 1, Fin 1] = Fin 1"
  by (simp_all add: series_var_def series_mean_def dropna_def fl_sum_def fl_sub_def Let_def)

lemma test_metric_const:
  "test_metric (const_lib (Fin 1) (NaN, NaN) (NaN, NaN) NaN) const_df (m, l) = Inr (nan_row l)"
  by (simp add: test_metric_def grp_const const_lib_def Let_def const_moments fl_sub_def nan_row_def)

text \<open>
  Claim C10 as stated fails: the effect size can be NaN, for which \<open>0 <= effect\<close> is false.
  Take three rows per tool, every metric equal to 1. On a sample of identical values scipy's
  \<open>shapiro\<close> reports the p-value 1 (range zero), so the Welch branch runs, and \<open>ttest_ind\<close>
  reports (nan, nan); the stand-in library returns these. Both variances are 0 and the means
  are equal, so the script divides the numpy scalar 0.0 by \<open>math.sqrt(0.0)\<close>, which is NaN.
\<close>

theorem hypothesis_tests_effect_nan:
  "hypothesis_tests (const_lib (Fin 1) (NaN, NaN) (NaN, NaN) NaN) const_df
     = Inr [nan_row ''Tempo (h)'', nan_row ''Erros Funcionais'', nan_row ''Problemas de Design'']
   \<and> h_efeito (nan_row ''Tempo (h)'') = NaN \<and> \<not> fl_nonneg (h_efeito (nan_row ''Tempo (h)''))"
  by (simp add: hypothesis_tests_def metric_labels_def test_metric_const nan_row_def)

section \<open>Properties of load_metrics\<close>

lemma for_each_Inl:
  "for_each f xs = Inl e \<Longrightarrow> \<exists>x\<in>set xs. f x = Inl e"
  by (induction xs arbitrary: e) (auto split: sum.splits)

lemma for_each_total:
  "\<forall>x\<in>set xs. \<exists>y. f x = Inr y \<Longrightarrow> \<exists>ys. for_each f xs = Inr ys"
  by (induction xs) (auto split: sum.splits)

lemma for_each_raises:
  "x \<in> set xs \<Longrightarrow> f x = Inl e \<Longrightarrow> \<exists>e'. for_each f xs = Inl e'"
  by (induction xs) (auto split: sum.splits)

lemma astype_float_cases:
  "astype_float py c = (if malformed_float py c then Inl ValueError else Inr (projr (astype_float py c)))"
  by (cases c) (auto split: option.splits)

lemma astype_float_error: "astype_float py c = Inl e \<Longrightarrow> e = ValueError \<and> malformed_float py c"
  by (cases c) (auto split: option.splits)

lemma coerce_malformed: "malformed_numeric py c \<Longrightarrow> coerce_numeric py c = NaN"
  by (cases c) auto

lemma coerce_columns_Inr:
  assumes "coerce_columns py df_raw = Inr co"
  shows "length co = length df_raw \<and>
         (\<forall>i<length df_raw.
            ID (co ! i) = raw_ID (df_raw ! i) \<and>
            astype_float py (raw_tempo (df_raw ! i)) = Inr (tempo_h (co ! i)) \<and>
            astype_float py (raw_loc (df_raw ! i)) = Inr (loc_mod (co ! i)) \<and>
            erros (co ! i) = coerce_numeric py (raw_erros (df_raw ! i)) \<and>
            design (co ! i) = coerce_numeric py (raw_design (df_raw ! i)) \<and>
            ferramenta (co ! i) = raw_ferramenta (df_raw ! i))"
proof -
  from assms obtain tempo loc where
    t: "for_each (\<lambda>r. astype_float py (raw_tempo r)) df_raw = Inr tempo" and
    l: "for_each (\<lambda>r. astype_float py (raw_loc r)) df_raw = Inr loc" and
    co: "co = map (\<lambda>(r, t, l).
               \<lparr>ID = raw_ID r, tempo_h = t, erros = coerce_numeric py (raw_erros r),
                design = coerce_numeric py (raw_design r), ferramenta = raw_ferramenta r,
                loc_mod = l\<rparr>)
             (zip df_raw (zip tempo loc))"
    by (auto simp: coerce_columns_def split: sum.splits)
  from for_each_Inr [OF t] for_each_Inr [OF l] co show ?thesis
    by simp
qed

lemma load_metrics_Inr:
  assumes "load_metrics py df_raw = Inr df"
  shows "length df = length df_raw \<and>
         (\<forall>i<length df_raw.
            ID (df ! i) = raw_ID (df_raw ! i) \<and>
            astype_float py (raw_tempo (df_raw ! i)) = Inr (tempo_h (df ! i)) \<and>
            (\<exists>l. astype_float py (raw_loc (df_raw ! i)) = Inr l) \<and>
            erros (df ! i) = coerce_numeric py (raw_erros (df_raw ! i)) \<and>
            design (df ! i) = coerce_numeric py (raw_design (df_raw ! i)) \<and>
            ferramenta (df ! i) = raw_ferramenta (df_raw ! i))"
proof -
  from assms obtain co where c: "coerce_columns py df_raw = Inr co" and df: "df = map metrics_row.truncate co"
    by (auto simp: load_metrics_def split: sum.splits)
  from coerce_columns_Inr [OF c] df show ?thesis
    by (auto simp: metrics_row.truncate_def)
qed

lemma load_metrics_raises:
  assumes "r \<in> set df_raw" "malformed_float py (raw_tempo r) \<or> malformed_float py (raw_loc r)"
  shows "load_metrics py df_raw = Inl ValueError"
proof (cases "load_metrics py df_raw")
  case (Inl e)
  then have "coerce_columns py df_raw = Inl e"
    by (auto simp: load_metrics_def split: sum.splits)
  then have "(\<exists>x\<in>set df_raw. astype_float py (raw_tempo x) = Inl e) \<or> (\<exists>x\<in>set df_raw. astype_float py (raw_loc x) = Inl e)"
    by (auto simp: coerce_columns_def split: sum.splits dest: for_each_Inl)
  then have "e = ValueError" by (auto dest: astype_float_error)
  with Inl show ?thesis by simp
next
  case (Inr df)
  from assms(1) obtain i where i: "i < length df_raw" "r = df_raw ! i"
    by (auto simp: in_set_conv_nth)
  from load_metrics_Inr [OF Inr] i
  have "\<exists>t. astype_float py (raw_tempo r) = Inr t" "\<exists>l. astype_float py (raw_loc r) = Inr l"
    by auto
  with assms(2) show ?thesis
    by (subst (asm) astype_float_cases, subst (asm) (2) astype_float_cases) (auto split: if_splits)
qed

lemma load_metrics_loads:
  assumes "\<forall>r\<in>set df_raw. \<not> malformed_float py (raw_tempo r) \<and> \<not> malformed_float py (raw_loc r)"
  shows "\<exists>df. load_metrics py df_raw = Inr df"
proof -
  have "\<forall>r\<in>set df_raw. \<exists>y. astype_float py (raw_tempo r) = Inr y"
    using assms by (metis astype_float_cases)
  from for_each_total [OF this] obtain tempo where
    t: "for_each (\<lambda>r. astype_float py (raw_tempo r)) df_raw = Inr tempo" by blast
  have "\<forall>r\<in>set df_raw. \<exists>y. astype_float py (raw_loc r) = Inr y"
    using assms by (metis astype_float_cases)
  from for_each_total [OF this] obtain loc where
    l: "for_each (\<lambda>r. astype_float py (raw_loc r)) df_raw = Inr loc" by blast
  show ?thesis by (simp add: load_metrics_def coerce_columns_def t l)
qed

text \<open>
  Claim C2, as amended. A malformed value in the column "Tempo (h)" or "LOC Modificadas"
  makes \<open>load_metrics\<close> raise ValueError, which ends the run. When no value of these two
  columns is malformed, \<open>load_metrics\<close> returns a table with one row per raw row, and a
  malformed value of the column "Erros Funcionais" or "Problemas de Design" does not raise:
  it is NaN in the returned table (\<open>errors="coerce"\<close>).
\<close>

theorem load_metrics_malformed_values:
  "((\<exists>r\<in>set df_raw. malformed_float py (raw_tempo r) \<or> malformed_float py (raw_loc r))
      \<longrightarrow> load_metrics py df_raw = Inl ValueError) \<and>
   ((\<forall>r\<in>set df_raw. \<not> malformed_float py (raw_tempo r) \<and> \<not> malformed_float py (raw_loc r))
      \<longrightarrow> (\<exists>df. load_metrics py df_raw = Inr df \<and> length df = length df_raw \<and>
             (\<forall>i<length df_raw.
                (malformed_numeric py (raw_erros (df_raw ! i)) \<longrightarrow> erros (df ! i) = NaN) \<and>
                (malformed_numeric py (raw_design (df_raw ! i)) \<longrightarrow> design (df ! i) = NaN))))"
proof (intro conjI impI)
  assume "\<exists>r\<in>set df_raw. malformed_float py (raw_tempo r) \<or> malformed_float py (raw_loc r)"
  then show "load_metrics py df_raw = Inl ValueError"
    using load_metrics_raises by blast
next
  assume "\<forall>r\<in>set df_raw. \<not> malformed_float py (raw_tempo r) \<and> \<not> malformed_float py (raw_loc r)"
  from load_metrics_loads [OF this] obtain df where df: "load_metrics py df_raw = Inr df" by blast
  from load_metrics_Inr [OF df] coerce_malformed
  have "length df = length df_raw \<and>
        (\<forall>i<length df_raw.
           (malformed_numeric py (raw_erros (df_raw ! i)) \<longrightarrow> erros (df ! i) = NaN) \<and>
           (malformed_numeric py (raw_design (df_raw ! i)) \<longrightarrow> design (df ! i) = NaN))"
    by simp
  with df show "\<exists>df. load_metrics py df_raw = Inr df \<and> length df = length df_raw \<and>
             (\<forall>i<length df_raw.
                (malformed_numeric py (raw_erros (df_raw ! i)) \<longrightarrow> erros (df ! i) = NaN) \<and>
                (malformed_numeric py (raw_design (df_raw ! i)) \<longrightarrow> design (df ! i) = NaN))"
    by blast
qed

lemmas decimal_eval = decimal_py_def decimal_float_def unsigned_decimal_def Let_def is_digit_def
  digits_value_def float_text_def strip_def replace_comma_def is_space_def

lemma load_raw_sample: "load_metrics decimal_py raw_sample = Inr loaded_sample"
  by (simp add: load_metrics_def coerce_columns_def raw_sample_def raw_row_def loaded_sample_def
      metrics_row.truncate_def decimal_eval)

lemma load_raw_sample_loc: "load_metrics decimal_py raw_sample_loc = Inr loaded_sample"
  by (simp add: load_metrics_def coerce_columns_def raw_sample_loc_def raw_row_def loaded_sample_def
      metrics_row.truncate_def decimal_eval)

lemma malformed_samples:
  "malformed_float decimal_py (Str ''1h30'')" "malformed_numeric decimal_py (Str ''abc'')"
  "\<not> malformed_float decimal_py (Str '' 1,5'')" "\<not> malformed_float decimal_py (Str ''120'')"
  "\<not> malformed_float decimal_py (Str ''999'')"
  by (simp_all add: decimal_eval)

theorem load_metrics_malformed_values_witness:
  "load_metrics decimal_py raw_bad_time = Inl ValueError \<and>
   load_metrics decimal_py raw_sample = Inr loaded_sample \<and>
   malformed_numeric decimal_py (raw_erros (raw_sample ! 0)) \<and> erros (loaded_sample ! 0) = NaN"
proof -
  have bad: "\<exists>r\<in>set raw_bad_time. malformed_float decimal_py (raw_tempo r) \<or> malformed_float decimal_py (raw_loc r)"
    by (simp add: raw_bad_time_def raw_row_def decimal_eval)
  have good: "\<forall>r\<in>set raw_sample. \<not> malformed_float decimal_py (raw_tempo r) \<and> \<not> malformed_float decimal_py (raw_loc r)"
    by (simp add: raw_sample_def raw_row_def decimal_eval)
  have cell: "malformed_numeric decimal_py (raw_erros (raw_sample ! 0))"
    by (simp add: raw_sample_def raw_row_def decimal_eval)
  from load_metrics_malformed_values [of raw_bad_time decimal_py] bad
  have 1: "load_metrics decimal_py raw_bad_time = Inl ValueError" by blast
  from load_metrics_malformed_values [of raw_sample decimal_py] good
  obtain df where df: "load_metrics decimal_py raw_sample = Inr df"
    and each: "\<forall>i<length raw_sample.
                (malformed_numeric decimal_py (raw_erros (raw_sample ! i)) \<longrightarrow> erros (df ! i) = NaN) \<and>
                (malformed_numeric decimal_py (raw_design (raw_sample ! i)) \<longrightarrow> design (df ! i) = NaN)"
    by blast
  have "0 < length raw_sample" by (simp add: raw_sample_def)
  with each cell have "erros (df ! 0) = NaN" by blast
  moreover from df load_raw_sample have "df = loaded_sample" by simp
  ultimately have 2: "erros (loaded_sample ! 0) = NaN" by simp
  from 1 2 cell load_raw_sample show ?thesis by simp
qed

text \<open>
  Claim C2 as stated fails: with "abc" as the number of functional errors, the table loads,
  and the row carries NaN in its place.
\<close>

theorem load_metrics_keeps_malformed_errors:
  "malformed_numeric decimal_py (Str ''abc'') \<and>
   load_metrics decimal_py
     [\<lparr>raw_ID = Flt (Fin 1), raw_tempo = Str '' 1,5'', raw_loc = Str ''120'', raw_erros = Str ''abc'',
       raw_design = Flt (Fin 2), raw_ferramenta = Some ''SmartRefactor''\<rparr>]
   = Inr [\<lparr>ID = Flt (Fin 1), tempo_h = Fin (3 / 2), erros = NaN, design = Fin 2,
           ferramenta = Some ''SmartRefactor''\<rparr>]"
  by (simp add: load_metrics_def coerce_columns_def metrics_row.truncate_def decimal_eval)

lemma same_but_loc_nth:
  assumes "same_but_loc a b"
  shows "length a = length b \<and>
         (\<forall>i<length a. raw_ID (a ! i) = raw_ID (b ! i) \<and> raw_tempo (a ! i) = raw_tempo (b ! i) \<and>
            raw_erros (a ! i) = raw_erros (b ! i) \<and> raw_design (a ! i) = raw_design (b ! i) \<and>
            raw_ferramenta (a ! i) = raw_ferramenta (b ! i))"
proof -
  let ?f = "\<lambda>r::raw_metrics_row. r\<lparr>raw_loc := Flt NaN\<rparr>"
  from assms have eq: "map ?f a = map ?f b" by (simp add: same_but_loc_def)
  then have len: "length a = length b" by (rule map_eq_imp_length_eq)
  have "?f (a ! i) = ?f (b ! i)" if "i < length a" for i
    using eq that len by (metis nth_map)
  then have "\<forall>i<length a. raw_ID (a ! i) = raw_ID (b ! i) \<and> raw_tempo (a ! i) = raw_tempo (b ! i) \<and>
            raw_erros (a ! i) = raw_erros (b ! i) \<and> raw_design (a ! i) = raw_design (b ! i) \<and>
            raw_ferramenta (a ! i) = raw_ferramenta (b ! i)"
    by (metis raw_metrics_row.ext_inject raw_metrics_row.surjective raw_metrics_row.update_convs(3))
  with len show ?thesis by simp
qed

text \<open>
  What \<open>load_metrics\<close> returns: the table has one row per raw row, and a row consists of
  exactly ID, tempo_h (the converted "Tempo (h)"), erros and design (the coerced counts) and
  ferramenta. The column "LOC Modificadas" is converted too, so none of its values is
  malformed, but the final column selection leaves it out: any raw table that differs only
  in that column and loads gives the same table.
\<close>

lemma load_metrics_drops_loc:
  assumes "load_metrics py df_raw = Inr df"
  shows "length df = length df_raw \<and>
         (\<forall>i<length df_raw.
            df ! i = \<lparr>ID = raw_ID (df_raw ! i),
                       tempo_h = projr (astype_float py (raw_tempo (df_raw ! i))),
                       erros = coerce_numeric py (raw_erros (df_raw ! i)),
                       design = coerce_numeric py (raw_design (df_raw ! i)),
                       ferramenta = raw_ferramenta (df_raw ! i)\<rparr> \<and>
            \<not> malformed_float py (raw_loc (df_raw ! i))) \<and>
         (\<forall>df_raw' df'. same_but_loc df_raw df_raw' \<and> load_metrics py df_raw' = Inr df' \<longrightarrow> df' = df)"
proof -
  have shape: "length d = length r \<and>
         (\<forall>i<length r.
            d ! i = \<lparr>ID = raw_ID (r ! i),
                       tempo_h = projr (astype_float py (raw_tempo (r ! i))),
                       erros = coerce_numeric py (raw_erros (r ! i)),
                       design = coerce_numeric py (raw_design (r ! i)),
                       ferramenta = raw_ferramenta (r ! i)\<rparr> \<and>
            \<not> malformed_float py (raw_loc (r ! i)))"
    if "load_metrics py r = Inr d" for r d
  proof -
    from load_metrics_Inr [OF that] have len: "length d = length r" and
      each: "\<And>i. i < length r \<Longrightarrow>
            ID (d ! i) = raw_ID (r ! i) \<and>
            astype_float py (raw_tempo (r ! i)) = Inr (tempo_h (d ! i)) \<and>
            (\<exists>l. astype_float py (raw_loc (r ! i)) = Inr l) \<and>
            erros (d ! i) = coerce_numeric py (raw_erros (r ! i)) \<and>
            design (d ! i) = coerce_numeric py (raw_design (r ! i)) \<and>
            ferramenta (d ! i) = raw_ferramenta (r ! i)"
      by simp_all
    have "d ! i = \<lparr>ID = raw_ID (r ! i),
                       tempo_h = projr (astype_float py (raw_tempo (r ! i))),
                       erros = coerce_numeric py (raw_erros (r ! i)),
                       design = coerce_numeric py (raw_design (r ! i)),
                       ferramenta = raw_ferramenta (r ! i)\<rparr> \<and>
            \<not> malformed_float py (raw_loc (r ! i))" if "i < length r" for i
    proof -
      from each [OF that] obtain l where l: "astype_float py (raw_loc (r ! i)) = Inr l" by blast
      have "\<not> malformed_float py (raw_loc (r ! i))"
        using l by (subst (asm) astype_float_cases) (simp split: if_splits)
      with each [OF that] show ?thesis by (cases "d ! i") simp
    qed
    with len show ?thesis by simp
  qed
  have "df' = df" if s: "same_but_loc df_raw df_raw'" and l: "load_metrics py df_raw' = Inr df'" for df_raw' df'
  proof (rule nth_equalityI)
    from same_but_loc_nth [OF s] shape [OF l] shape [OF assms]
    show "length df' = length df" by simp
  next
    fix i assume "i < length df'"
    with same_but_loc_nth [OF s] shape [OF l] shape [OF assms]
    show "df' ! i = df ! i" by simp
  qed
  with shape [OF assms] show ?thesis by blast
qed

lemma same_but_loc_samples: "same_but_loc raw_sample raw_sample_loc"
  by (simp add: same_but_loc_def raw_sample_def raw_sample_loc_def raw_row_def)

lemma load_metrics_drops_loc_example:
  "load_metrics decimal_py raw_sample = Inr loaded_sample \<and> same_but_loc raw_sample raw_sample_loc \<and>
   (\<exists>df'. load_metrics decimal_py raw_sample_loc = Inr df' \<and> df' = loaded_sample) \<and>
   length loaded_sample = length raw_sample"
proof -
  from load_metrics_drops_loc [OF load_raw_sample]
  have len: "length loaded_sample = length raw_sample"
    and indep: "\<forall>df_raw' df'. same_but_loc raw_sample df_raw' \<and> load_metrics decimal_py df_raw' = Inr df'
                  \<longrightarrow> df' = loaded_sample"
    by blast+
  from load_raw_sample_loc obtain df' where l: "load_metrics decimal_py raw_sample_loc = Inr df'"
    by blast
  with indep same_but_loc_samples have "df' = loaded_sample" by blast
  with l len load_raw_sample same_but_loc_samples show ?thesis by blast
qed

text \<open>
  Claim C3. The claim asks for a lines-modified field in the loaded table, next to time
  spent, functional errors, design issues and tool used. The code renames the column
  "LOC Modificadas" to loc_mod and converts it to float, and the comment on the final
  column selection speaks of removing the extra non-numeric columns; but the selection
  lists five names and loc_mod is not among them. On the one-row table below the converted
  table holds loc_mod = 120, the loaded table does not, and the same table is loaded when
  the number of modified lines is 999: no lines-modified field reaches the later stages.
\<close>

theorem load_metrics_loc_not_kept:
  "coerce_columns decimal_py
     [\<lparr>raw_ID = Flt (Fin 1), raw_tempo = Str ''1.5'', raw_loc = Str ''120'', raw_erros = Flt (Fin 0),
       raw_design = Flt (Fin 2), raw_ferramenta = Some ''SmartRefactor''\<rparr>]
     = Inr [\<lparr>ID = Flt (Fin 1), tempo_h = Fin (3 / 2), erros = Fin 0, design = Fin 2,
             ferramenta = Some ''SmartRefactor'', loc_mod = Fin 120\<rparr>] \<and>
   load_metrics decimal_py
     [\<lparr>raw_ID = Flt (Fin 1), raw_tempo = Str ''1.5'', raw_loc = Str ''120'', raw_erros = Flt (Fin 0),
       raw_design = Flt (Fin 2), raw_ferramenta = Some ''SmartRefactor''\<rparr>]
     = Inr [\<lparr>ID = Flt (Fin 1), tempo_h = Fin (3 / 2), erros = Fin 0, design = Fin 2,
             ferramenta = Some ''SmartRefactor''\<rparr>] \<and>
   load_metrics decimal_py
     [\<lparr>raw_ID = Flt (Fin 1), raw_tempo = Str ''1.5'', raw_loc = Str ''999'', raw_erros = Flt (Fin 0),
       raw_design = Flt (Fin 2), raw_ferramenta = Some ''SmartRefactor''\<rparr>]
     = Inr [\<lparr>ID = Flt (Fin 1), tempo_h = Fin (3 / 2), erros = Fin 0, design = Fin 2,
             ferramenta = Some ''SmartRefactor''\<rparr>]"
  by (simp add: load_metrics_def coerce_columns_def metrics_row.truncate_def decimal_eval)

section \<open>Properties of the join\<close>

lemma filter_distinct_key:
  "distinct (map f xs) \<Longrightarrow>
   filter (\<lambda>x. f x = k) xs = (case find (\<lambda>x. f x = k) xs of None \<Rightarrow> [] | Some x \<Rightarrow> [x])"
proof (induction xs)
  case Nil
  then show ?case by simp
next
  case (Cons a xs)
  show ?case
  proof (cases "f a = k")
    case True
    from Cons.prems have "f a \<notin> f ` set xs" by simp
    with True have "\<forall>x\<in>set xs. f x \<noteq> k" by blast
    then have "filter (\<lambda>x. f x = k) xs = []" by (simp add: filter_empty_conv)
    with True show ?thesis by simp
  next
    case False
    with Cons show ?thesis by simp
  qed
qed

lemma join_rows_distinct:
  assumes "distinct (map pID df_profile)"
  shows "join_rows df_metrics df_profile =
         map (\<lambda>l. join_row l (find (\<lambda>p. pID p = ID l) df_profile)) df_metrics"
proof -
  have "(case filter (\<lambda>p. pID p = ID l) df_profile of
           [] \<Rightarrow> [join_row l None]
         | ms \<Rightarrow> map (\<lambda>p. join_row l (Some p)) ms)
        = [join_row l (find (\<lambda>p. pID p = ID l) df_profile)]" for l
    by (simp add: filter_distinct_key [OF assms] split: option.splits)
  then show ?thesis
    by (simp add: join_rows_def)
qed

lemma truncate_join_row: "metrics_row.truncate (join_row l r) = l"
  by (cases l) (simp add: join_row_def metrics_row.truncate_def)

lemma join_rows_one_row_per_metrics_row:
  assumes "distinct (map pID df_profile)"
  shows "length (join_rows df_metrics df_profile) = length df_metrics \<and>
         map metrics_row.truncate (join_rows df_metrics df_profile) = df_metrics \<and>
         (\<forall>i<length df_metrics.
            (case find (\<lambda>p. pID p = ID (df_metrics ! i)) df_profile of
               None \<Rightarrow>
                 j_formacao (join_rows df_metrics df_profile ! i) = None \<and>
                 j_experiencia (join_rows df_metrics df_profile ! i) = None \<and>
                 j_kn_ref (join_rows df_metrics df_profile ! i) = None \<and>
                 j_kn_java (join_rows df_metrics df_profile ! i) = None
             | Some p \<Rightarrow>
                 j_formacao (join_rows df_metrics df_profile ! i) = formacao p \<and>
                 j_experiencia (join_rows df_metrics df_profile ! i) = experiencia p \<and>
                 j_kn_ref (join_rows df_metrics df_profile ! i) = kn_ref p \<and>
                 j_kn_java (join_rows df_metrics df_profile ! i) = kn_java p))"
proof -
  let ?j = "\<lambda>l. join_row l (find (\<lambda>p. pID p = ID l) df_profile)"
  have m: "join_rows df_metrics df_profile = map ?j df_metrics"
    by (rule join_rows_distinct [OF assms])
  have 1: "length (join_rows df_metrics df_profile) = length df_metrics"
    by (simp add: m)
  have 2: "map metrics_row.truncate (join_rows df_metrics df_profile) = df_metrics"
    by (simp add: m truncate_join_row comp_def)
  have 3: "(case find (\<lambda>p. pID p = ID (df_metrics ! i)) df_profile of
               None \<Rightarrow>
                 j_formacao (join_rows df_metrics df_profile ! i) = None \<and>
                 j_experiencia (join_rows df_metrics df_profile ! i) = None \<and>
                 j_kn_ref (join_rows df_metrics df_profile ! i) = None \<and>
                 j_kn_java (join_rows df_metrics df_profile ! i) = None
             | Some p \<Rightarrow>
                 j_formacao (join_rows df_metrics df_profile ! i) = formacao p \<and>
                 j_experiencia (join_rows df_metrics df_profile ! i) = experiencia p \<and>
                 j_kn_ref (join_rows df_metrics df_profile ! i) = kn_ref p \<and>
                 j_kn_java (join_rows df_metrics df_profile ! i) = kn_java p)"
    if "i < length df_metrics" for i
    using that by (simp add: m join_row_def split: option.splits)
  from 1 2 3 show ?thesis by blast
qed

text \<open>
  Claim C4. Take two loaded tables in which no ID occurs twice in the profile table. When
  one ID column is numeric and the other text (and both tables have rows), the join raises
  ValueError and produces no table. In every other case it produces a table that has
  exactly one row for each metrics row, in the same order; dropping the profile columns
  from it gives the metrics table back unchanged; and in the row of a metrics row the
  profile columns are all missing when no profile row has its ID, and are those of the
  profile row with its ID otherwise.
\<close>

theorem merge_left_one_row_per_metrics_row:
  assumes "distinct (map pID df_profile)"
  shows "(incompatible_keys (map ID df_metrics) (map pID df_profile) \<longrightarrow>
            merge_left df_metrics df_profile = Inl ValueError) \<and>
         (\<not> incompatible_keys (map ID df_metrics) (map pID df_profile) \<longrightarrow>
            (\<exists>joined. merge_left df_metrics df_profile = Inr joined \<and>
               length joined = length df_metrics \<and>
               map metrics_row.truncate joined = df_metrics \<and>
               (\<forall>i<length df_metrics.
                  (case find (\<lambda>p. pID p = ID (df_metrics ! i)) df_profile of
                     None \<Rightarrow>
                       j_formacao (joined ! i) = None \<and> j_experiencia (joined ! i) = None \<and>
                       j_kn_ref (joined ! i) = None \<and> j_kn_java (joined ! i) = None
                   | Some p \<Rightarrow>
                       j_formacao (joined ! i) = formacao p \<and>
                       j_experiencia (joined ! i) = experiencia p \<and>
                       j_kn_ref (joined ! i) = kn_ref p \<and> j_kn_java (joined ! i) = kn_java p))))"
proof (rule conjI; rule impI)
  assume "incompatible_keys (map ID df_metrics) (map pID df_profile)"
  then show "merge_left df_metrics df_profile = Inl ValueError"
    by (simp add: merge_left_def)
next
  assume "\<not> incompatible_keys (map ID df_metrics) (map pID df_profile)"
  then have m: "merge_left df_metrics df_profile = Inr (join_rows df_metrics df_profile)"
    by (simp add: merge_left_def)
  from join_rows_one_row_per_metrics_row [OF assms, of df_metrics] m
  show "\<exists>joined. merge_left df_metrics df_profile = Inr joined \<and>
               length joined = length df_metrics \<and>
               map metrics_row.truncate joined = df_metrics \<and>
               (\<forall>i<length df_metrics.
                  (case find (\<lambda>p. pID p = ID (df_metrics ! i)) df_profile of
                     None \<Rightarrow>
                       j_formacao (joined ! i) = None \<and> j_experiencia (joined ! i) = None \<and>
                       j_kn_ref (joined ! i) = None \<and> j_kn_java (joined ! i) = None
                   | Some p \<Rightarrow>
                       j_formacao (joined ! i) = formacao p \<and>
                       j_experiencia (joined ! i) = experiencia p \<and>
                       j_kn_ref (joined ! i) = kn_ref p \<and> j_kn_java (joined ! i) = kn_java p))"
    by (intro exI [of _ "join_rows df_metrics df_profile"]) simp
qed

lemma sample_keys:
  "\<not> incompatible_keys (map ID two_metrics) (map pID sample_profile)"
  "incompatible_keys (map ID two_metrics) (map pID text_profile)"
  "\<not> incompatible_keys (map ID sample_df) (map pID sample_profile)"
  by (simp_all add: incompatible_keys_def text_column_def two_metrics_def sample_df_def mrow_def
      sample_profile_def prow_def text_profile_def)

theorem merge_left_one_row_per_metrics_row_witness:
  "distinct (map pID sample_profile) \<and>
   (\<exists>joined. merge_left two_metrics sample_profile = Inr joined \<and> length joined = 2 \<and>
      map metrics_row.truncate joined = two_metrics \<and>
      j_experiencia (joined ! 0) = Some ''0-1 anos'' \<and> j_experiencia (joined ! 1) = None) \<and>
   distinct (map pID text_profile) \<and>
   merge_left two_metrics text_profile = Inl ValueError"
proof -
  have d: "distinct (map pID sample_profile)"
    by (simp add: sample_profile_def prow_def)
  have dt: "distinct (map pID text_profile)"
    by (simp add: text_profile_def)
  have f0: "find (\<lambda>p. pID p = ID (two_metrics ! 0)) sample_profile
              = Some (prow 1 ''Graduacao'' ''0-1 anos'' ''Nenhum'' ''Nenhum'')"
    by (simp add: two_metrics_def mrow_def sample_profile_def prow_def)
  have f1: "find (\<lambda>p. pID p = ID (two_metrics ! 1)) sample_profile = None"
    by (simp add: two_metrics_def mrow_def sample_profile_def prow_def)
  have len: "length two_metrics = 2" by (simp add: two_metrics_def)
  from merge_left_one_row_per_metrics_row [OF dt, of two_metrics] sample_keys(2)
  have bad: "merge_left two_metrics text_profile = Inl ValueError" by blast
  from merge_left_one_row_per_metrics_row [OF d, of two_metrics] sample_keys(1)
  obtain joined where j: "merge_left two_metrics sample_profile = Inr joined"
    and a: "length joined = length two_metrics"
    and b: "map metrics_row.truncate joined = two_metrics"
    and c: "\<And>i. i < length two_metrics \<Longrightarrow>
            (case find (\<lambda>p. pID p = ID (two_metrics ! i)) sample_profile of
               None \<Rightarrow>
                 j_formacao (joined ! i) = None \<and> j_experiencia (joined ! i) = None \<and>
                 j_kn_ref (joined ! i) = None \<and> j_kn_java (joined ! i) = None
             | Some p \<Rightarrow>
                 j_formacao (joined ! i) = formacao p \<and>
                 j_experiencia (joined ! i) = experiencia p \<and>
                 j_kn_ref (joined ! i) = kn_ref p \<and> j_kn_java (joined ! i) = kn_java p)"
    by blast
  from c [of 0] f0 len have e0: "j_experiencia (joined ! 0) = Some ''0-1 anos''"
    by (simp add: prow_def)
  from c [of 1] f1 len have e1: "j_experiencia (joined ! 1) = None"
    by simp
  from j a b e0 e1 len have "\<exists>joined. merge_left two_metrics sample_profile = Inr joined \<and> length joined = 2 \<and>
      map metrics_row.truncate joined = two_metrics \<and>
      j_experiencia (joined ! 0) = Some ''0-1 anos'' \<and> j_experiencia (joined ! 1) = None"
    by simp
  with d dt bad show ?thesis by blast
qed

section \<open>Properties of descriptive_stats\<close>

lemma dropna_present: "no_infinity vs \<Longrightarrow> dropna vs = map Fin (present vs)"
  by (induction vs rule: present.induct) (auto simp: dropna_def no_infinity_def)

lemma foldl_fl_add_Fin: "foldl fl_add (Fin a) (map Fin xs) = Fin (a + sum_list xs)"
  by (induction xs arbitrary: a) (simp_all add: add.assoc)

lemma fl_sum_Fin: "fl_sum (map Fin xs) = Fin (sum_list xs)"
  by (simp add: fl_sum_def foldl_fl_add_Fin)

lemma series_count_present: "no_infinity vs \<Longrightarrow> series_count vs = length (present vs)"
  by (simp add: series_count_def dropna_present)

lemma series_mean_present:
  assumes "no_infinity vs"
  shows "series_mean vs = (if present vs = [] then NaN else Fin (arithmetic_mean (present vs)))"
  by (simp add: series_mean_def dropna_present [OF assms] fl_sum_Fin arithmetic_mean_def)

lemma series_var_present:
  assumes "no_infinity vs" "2 \<le> length (present vs)"
  shows "series_var vs =
         Fin (sum_list (map (\<lambda>x. (x - arithmetic_mean (present vs))\<^sup>2) (present vs))
              / real (length (present vs) - 1))"
proof -
  from assms(2) have ne: "present vs \<noteq> []" by auto
  have m: "series_mean vs = Fin (arithmetic_mean (present vs))"
    using series_mean_present [OF assms(1)] ne by simp
  have e: "fl_sum (map (\<lambda>y. fl_sq (fl_sub y (Fin a))) (map Fin xs)) = Fin (sum_list (map (\<lambda>x. (x - a)\<^sup>2) xs))" for a xs
  proof -
    have "map (\<lambda>y. fl_sq (fl_sub y (Fin a))) (map Fin xs) = map Fin (map (\<lambda>x. (x - a)\<^sup>2) xs)"
      by (simp add: fl_sub_def power2_eq_square)
    then show ?thesis by (simp only: fl_sum_Fin)
  qed
  have "series_var vs = fl_div (fl_sum (map (\<lambda>y. fl_sq (fl_sub y (Fin (arithmetic_mean (present vs))))) (map Fin (present vs))))
                          (Fin (real (length (present vs) - 1)))"
    using assms(2) by (simp add: series_var_def dropna_present [OF assms(1)] m Let_def del: map_map)
  also have "\<dots> = Fin (sum_list (map (\<lambda>x. (x - arithmetic_mean (present vs))\<^sup>2) (present vs))
              / real (length (present vs) - 1))"
    using assms(2) by (simp only: e) simp
  finally show ?thesis .
qed

lemma series_std_present:
  assumes "no_infinity vs"
  shows "series_std vs = (if length (present vs) < 2 then NaN else Fin (sample_std (present vs)))"
proof (cases "length (present vs) < 2")
  case True
  then show ?thesis
    by (simp add: series_std_def series_var_def dropna_present [OF assms] Let_def)
next
  case False
  then have 2: "2 \<le> length (present vs)" by simp
  have "0 \<le> sum_list (map (\<lambda>x. (x - arithmetic_mean (present vs))\<^sup>2) (present vs))
              / real (length (present vs) - 1)"
    by (intro divide_nonneg_nonneg sum_list_nonneg) auto
  with False show ?thesis
    by (simp add: series_std_def series_var_present [OF assms 2] sample_std_def)
qed

lemma set_the_filter: "set (map the (filter (\<lambda>t. t \<noteq> None) ys)) = {t. Some t \<in> set ys}"
  by (induction ys) auto

lemma group_keys_set: "set (group_keys df) = {t. Some t \<in> ferramenta ` set df}"
proof -
  have "set (group_keys df) = set (map the (filter (\<lambda>t. t \<noteq> None) (map ferramenta df)))"
    unfolding group_keys_def by (simp only: set_sort set_remdups)
  also have "\<dots> = {t. Some t \<in> set (map ferramenta df)}"
    by (rule set_the_filter)
  also have "\<dots> = {t. Some t \<in> ferramenta ` set df}"
    by simp
  finally show ?thesis .
qed

lemma group_keys_distinct: "distinct (group_keys df)"
  by (simp add: group_keys_def)

lemma group_keys_sorted: "sorted (group_keys df)"
  by (simp add: group_keys_def)

lemma rint_near: "\<bar>of_int (rint z) - z\<bar> \<le> 1 / 2"
proof -
  have "of_int \<lfloor>z\<rfloor> \<le> z" "z < of_int \<lfloor>z\<rfloor> + 1" by linarith+
  then show ?thesis by (auto simp: rint_def Let_def)
qed

lemma rint_tie: "\<bar>of_int (rint z) - z\<bar> = 1 / 2 \<Longrightarrow> even (rint z)"
proof -
  assume a: "\<bar>of_int (rint z) - z\<bar> = 1 / 2"
  have f: "of_int \<lfloor>z\<rfloor> \<le> z" "z < of_int \<lfloor>z\<rfloor> + 1" by linarith+
  show ?thesis
  proof (cases "z - of_int \<lfloor>z\<rfloor> < 1 / 2")
    case True
    then have "rint z = \<lfloor>z\<rfloor>" by (simp add: rint_def Let_def)
    with a True f show ?thesis by auto
  next
    case False
    show ?thesis
    proof (cases "1 / 2 < z - of_int \<lfloor>z\<rfloor>")
      case True
      then have "rint z = \<lfloor>z\<rfloor> + 1" using False by (simp add: rint_def Let_def)
      with a True f show ?thesis by auto
    next
      case False2: False
      with False show ?thesis by (auto simp: rint_def Let_def)
    qed
  qed
qed

lemma py_round_rounded_to: "py_round (Fin x) n = Fin y \<Longrightarrow> rounded_to n x y"
proof -
  assume "py_round (Fin x) n = Fin y"
  then have y: "y = of_int (rint (x * 10 ^ n)) / 10 ^ n" by simp
  let ?k = "rint (x * 10 ^ n)"
  have p: "(0::real) < 10 ^ n" by simp
  have d: "\<bar>y - x\<bar> = \<bar>of_int ?k - x * 10 ^ n\<bar> / 10 ^ n"
  proof -
    have "y - x = (of_int ?k - x * 10 ^ n) / 10 ^ n"
      using p by (simp add: y field_simps)
    then show ?thesis using p by (simp add: abs_divide)
  qed
  have 1: "\<bar>y - x\<bar> \<le> 1 / (2 * 10 ^ n)"
  proof -
    have "\<bar>of_int ?k - x * 10 ^ n\<bar> / 10 ^ n \<le> (1 / 2) / 10 ^ n"
      using rint_near [of "x * 10 ^ n"] p by (intro divide_right_mono) simp_all
    then show ?thesis by (simp add: d)
  qed
  have 2: "even ?k" if "\<bar>y - x\<bar> = 1 / (2 * 10 ^ n)"
  proof -
    from that d have "\<bar>of_int ?k - x * 10 ^ n\<bar> / 10 ^ n = (1 / 2) / 10 ^ n" by simp
    with p have "\<bar>of_int ?k - x * 10 ^ n\<bar> = 1 / 2"
      by (metis divide_cancel_right less_irrefl)
    then show ?thesis by (rule rint_tie)
  qed
  show ?thesis
    unfolding rounded_to_def using y 1 2 by blast
qed

lemma reported_py_round:
  "reported (Some x) (py_round (Fin x) 3)" "reported None (py_round NaN 3)"
proof -
  have y: "py_round (Fin x) 3 = Fin (of_int (rint (x * 10 ^ 3)) / 10 ^ 3)"
    by (simp only: py_round.simps)
  from py_round_rounded_to [OF y] y show "reported (Some x) (py_round (Fin x) 3)"
    by (simp only: reported.simps) blast
  show "reported None (py_round NaN 3)" by simp
qed

lemma reported_stats:
  assumes "no_infinity vs"
  shows "reported (mean_of vs) (py_round (series_mean vs) 3) \<and>
         reported (std_of vs) (py_round (series_std vs) 3)"
proof
  show "reported (mean_of vs) (py_round (series_mean vs) 3)"
  proof (cases "present vs = []")
    case True
    then show ?thesis
      by (simp add: mean_of_def series_mean_present [OF assms])
  next
    case False
    then have "mean_of vs = Some (arithmetic_mean (present vs))"
      "series_mean vs = Fin (arithmetic_mean (present vs))"
      by (simp_all add: mean_of_def series_mean_present [OF assms])
    then show ?thesis by (simp only: reported_py_round)
  qed
  show "reported (std_of vs) (py_round (series_std vs) 3)"
  proof (cases "length (present vs) < 2")
    case True
    then show ?thesis
      by (simp add: std_of_def series_std_present [OF assms])
  next
    case False
    then have "std_of vs = Some (sample_std (present vs))"
      "series_std vs = Fin (sample_std (present vs))"
      by (simp_all add: std_of_def series_std_present [OF assms])
    then show ?thesis by (simp only: reported_py_round)
  qed
qed

text \<open>
  Claim C6. \<open>descriptive_stats\<close> returns one row per distinct tool of the table (a missing
  tool is no value and gets no row), no tool twice. In the row of a tool, \<open>n\<close> is the number
  of non-null tempo_h values of the tool's rows, and the six statistics are pandas' mean
  and standard deviation of the tool's tempo_h, erros and design values, rounded. For a
  column without infinities, the reported mean is the arithmetic mean of the present
  (non-null) values rounded to three decimals (a multiple of 0.001 at most 0.0005 away
  from it), and the reported deviation is their sample standard deviation with divisor
  \<open>n - 1\<close> rounded to three decimals; they are NaN when there is no value, respectively
  fewer than two.
\<close>

theorem descriptive_stats_per_tool:
  "distinct (map d_ferramenta (descriptive_stats df)) \<and>
   set (map d_ferramenta (descriptive_stats df)) = {t. Some t \<in> ferramenta ` set df} \<and>
   (\<forall>row\<in>set (descriptive_stats df).
      d_n row = length (filter (\<lambda>v. v \<noteq> NaN) (map tempo_h (group_rows (d_ferramenta row) df))) \<and>
      tempo_medio row = py_round (series_mean (map tempo_h (group_rows (d_ferramenta row) df))) 3 \<and>
      tempo_dp row = py_round (series_std (map tempo_h (group_rows (d_ferramenta row) df))) 3 \<and>
      erros_medio row = py_round (series_mean (map erros (group_rows (d_ferramenta row) df))) 3 \<and>
      erros_dp row = py_round (series_std (map erros (group_rows (d_ferramenta row) df))) 3 \<and>
      design_medio row = py_round (series_mean (map design (group_rows (d_ferramenta row) df))) 3 \<and>
      design_dp row = py_round (series_std (map design (group_rows (d_ferramenta row) df))) 3 \<and>
      (no_infinity (map tempo_h (group_rows (d_ferramenta row) df)) \<longrightarrow>
         reported (mean_of (map tempo_h (group_rows (d_ferramenta row) df))) (tempo_medio row) \<and>
         reported (std_of (map tempo_h (group_rows (d_ferramenta row) df))) (tempo_dp row)) \<and>
      (no_infinity (map erros (group_rows (d_ferramenta row) df)) \<longrightarrow>
         reported (mean_of (map erros (group_rows (d_ferramenta row) df))) (erros_medio row) \<and>
         reported (std_of (map erros (group_rows (d_ferramenta row) df))) (erros_dp row)) \<and>
      (no_infinity (map design (group_rows (d_ferramenta row) df)) \<longrightarrow>
         reported (mean_of (map design (group_rows (d_ferramenta row) df))) (design_medio row) \<and>
         reported (std_of (map design (group_rows (d_ferramenta row) df))) (design_dp row)))"
proof -
  have keys: "map d_ferramenta (descriptive_stats df) = group_keys df"
    by (simp add: descriptive_stats_def comp_def Let_def)
  have each: "d_n row = length (filter (\<lambda>v. v \<noteq> NaN) (map tempo_h (group_rows (d_ferramenta row) df))) \<and>
      tempo_medio row = py_round (series_mean (map tempo_h (group_rows (d_ferramenta row) df))) 3 \<and>
      tempo_dp row = py_round (series_std (map tempo_h (group_rows (d_ferramenta row) df))) 3 \<and>
      erros_medio row = py_round (series_mean (map erros (group_rows (d_ferramenta row) df))) 3 \<and>
      erros_dp row = py_round (series_std (map erros (group_rows (d_ferramenta row) df))) 3 \<and>
      design_medio row = py_round (series_mean (map design (group_rows (d_ferramenta row) df))) 3 \<and>
      design_dp row = py_round (series_std (map design (group_rows (d_ferramenta row) df))) 3"
    if "row \<in> set (descriptive_stats df)" for row
    using that by (auto simp: descriptive_stats_def Let_def series_count_def dropna_def)
  show ?thesis
  proof (intro conjI ballI impI)
    show "distinct (map d_ferramenta (descriptive_stats df))"
      unfolding keys by (rule group_keys_distinct)
    show "set (map d_ferramenta (descriptive_stats df)) = {t. Some t \<in> ferramenta ` set df}"
      unfolding keys by (rule group_keys_set)
  qed (use each reported_stats in \<open>simp_all\<close>)
qed

lemma rint_between: "of_int k \<le> z \<Longrightarrow> z < of_int k + 1 / 2 \<Longrightarrow> rint z = k"
proof -
  assume a: "of_int k \<le> z" "z < of_int k + 1 / 2"
  then have "\<lfloor>z\<rfloor> = k" by linarith
  with a show ?thesis by (simp add: rint_def Let_def)
qed

lemma sqrt_third_bounds: "577 \<le> sqrt (1 / 3) * 1000" "sqrt (1 / 3) * 1000 < 577 + 1 / 2"
proof -
  have "(577 / 1000)\<^sup>2 \<le> (1 / 3 :: real)" by (simp add: power2_eq_square)
  then have "577 / 1000 \<le> sqrt (1 / 3)" by (rule real_le_rsqrt)
  then show "577 \<le> sqrt (1 / 3) * 1000" by simp
  have "(1 / 3 :: real) < (1155 / 2000)\<^sup>2" by (simp add: power2_eq_square)
  then have "sqrt (1 / 3) < sqrt ((1155 / 2000)\<^sup>2)" by (simp only: real_sqrt_less_iff)
  then have "sqrt (1 / 3) < 1155 / 2000" by simp
  then show "sqrt (1 / 3) * 1000 < 577 + 1 / 2" by simp
qed

lemma thirds_moments:
  "series_mean [Fin 0, Fin 0, Fin 1] = Fin (1 / 3)"
  "series_std [Fin 0, Fin 0, Fin 1] = Fin (sqrt (1 / 3))"
  "present [Fin 0, Fin 0, Fin 1] = [0, 0, 1]"
  "arithmetic_mean [0, 0, 1] = 1 / 3"
  "sample_std [0, 0, 1] = sqrt (1 / 3)"
  "series_count [Fin 0, Fin 0, Fin 1] = 3"
  by (simp_all add: series_std_def series_var_def series_mean_def dropna_def fl_sum_def fl_sub_def
      Let_def arithmetic_mean_def sample_std_def power2_eq_square series_count_def)

lemma thirds_rounded:
  "py_round (Fin (1 / 3)) 3 = Fin (333 / 1000)"
  "py_round (Fin (sqrt (1 / 3))) 3 = Fin (577 / 1000)"
proof -
  have "rint (1 / 3 * 10 ^ 3) = 333" by (rule rint_between) simp_all
  then show "py_round (Fin (1 / 3)) 3 = Fin (333 / 1000)" by (simp only: py_round.simps) simp
  have "rint (sqrt (1 / 3) * 10 ^ 3) = 577"
    using sqrt_third_bounds by (intro rint_between) simp_all
  then show "py_round (Fin (sqrt (1 / 3))) 3 = Fin (577 / 1000)" by (simp only: py_round.simps) simp
qed

lemma thirds_group:
  "group_keys thirds_df = [''SmartRefactor'']"
  "map tempo_h (group_rows ''SmartRefactor'' thirds_df) = [Fin 0, Fin 0, Fin 1]"
  "map erros (group_rows ''SmartRefactor'' thirds_df) = [Fin 0, Fin 0, Fin 1]"
  "map design (group_rows ''SmartRefactor'' thirds_df) = [Fin 0, Fin 0, Fin 1]"
  by (simp_all add: group_keys_def group_rows_def thirds_df_def mrow_def)

lemma descriptive_stats_thirds:
  "descriptive_stats thirds_df =
     [\<lparr>d_ferramenta = ''SmartRefactor'', d_n = 3,
       tempo_medio = Fin (333 / 1000), tempo_dp = Fin (577 / 1000),
       erros_medio = Fin (333 / 1000), erros_dp = Fin (577 / 1000),
       design_medio = Fin (333 / 1000), design_dp = Fin (577 / 1000)\<rparr>]"
  unfolding descriptive_stats_def thirds_group Let_def
  by (simp only: list.map thirds_group thirds_moments thirds_rounded)

theorem descriptive_stats_per_tool_witness:
  "descriptive_stats thirds_df =
     [\<lparr>d_ferramenta = ''SmartRefactor'', d_n = 3,
       tempo_medio = Fin (333 / 1000), tempo_dp = Fin (577 / 1000),
       erros_medio = Fin (333 / 1000), erros_dp = Fin (577 / 1000),
       design_medio = Fin (333 / 1000), design_dp = Fin (577 / 1000)\<rparr>] \<and>
   no_infinity (map tempo_h (group_rows ''SmartRefactor'' thirds_df)) \<and>
   mean_of (map tempo_h (group_rows ''SmartRefactor'' thirds_df)) = Some (1 / 3) \<and>
   std_of (map tempo_h (group_rows ''SmartRefactor'' thirds_df)) = Some (sqrt (1 / 3)) \<and>
   reported (Some (1 / 3)) (Fin (333 / 1000)) \<and>
   reported (Some (sqrt (1 / 3))) (Fin (577 / 1000))"
proof -
  let ?row = "\<lparr>d_ferramenta = ''SmartRefactor'', d_n = 3,
       tempo_medio = Fin (333 / 1000), tempo_dp = Fin (577 / 1000),
       erros_medio = Fin (333 / 1000), erros_dp = Fin (577 / 1000),
       design_medio = Fin (333 / 1000), design_dp = Fin (577 / 1000)\<rparr>"
  let ?vs = "map tempo_h (group_rows ''SmartRefactor'' thirds_df)"
  have row: "?row \<in> set (descriptive_stats thirds_df)"
    by (simp only: descriptive_stats_thirds list.set insertI1)
  have fin: "no_infinity ?vs"
    by (simp add: thirds_group no_infinity_def)
  have m: "mean_of ?vs = Some (1 / 3)" and sd: "std_of ?vs = Some (sqrt (1 / 3))"
    by (simp_all add: thirds_group mean_of_def std_of_def thirds_moments)
  from descriptive_stats_per_tool [of thirds_df] row
  have "no_infinity (map tempo_h (group_rows (d_ferramenta ?row) thirds_df)) \<longrightarrow>
         reported (mean_of (map tempo_h (group_rows (d_ferramenta ?row) thirds_df))) (tempo_medio ?row) \<and>
         reported (std_of (map tempo_h (group_rows (d_ferramenta ?row) thirds_df))) (tempo_dp ?row)"
    by blast
  then have "no_infinity ?vs \<longrightarrow> reported (mean_of ?vs) (Fin (333 / 1000)) \<and> reported (std_of ?vs) (Fin (577 / 1000))"
    by simp
  with fin m sd have "reported (Some (1 / 3)) (Fin (333 / 1000))" "reported (Some (sqrt (1 / 3))) (Fin (577 / 1000))"
    by simp_all
  with descriptive_stats_thirds fin m sd show ?thesis by blast
qed

section \<open>Properties of map_ordinal\<close>














section \<open>Properties of profile_influence\<close>

lemma for_each_map_Inr:
  "for_each f xs = Inr ys \<Longrightarrow> list_all2 (\<lambda>x y. f x = Inr y) xs ys"
  by (induction xs arbitrary: ys) (auto split: sum.splits)

lemma level_rows_empty: "level_rows lvl df = [] \<longleftrightarrow> Some lvl \<notin> j_experiencia ` set df"
  by (auto simp: level_rows_def bool_index_eq_mask filter_empty_conv image_iff)

lemma length_kruskal_groups: "length (kruskal_groups metric df) = nonempty_levels df"
proof -
  have "filter (\<lambda>lvl. level_rows lvl df \<noteq> []) exp_order
        = filter (\<lambda>lvl. Some lvl \<in> j_experiencia ` set df) exp_order"
    by (rule filter_cong) (simp_all add: level_rows_empty)
  then show ?thesis by (simp add: kruskal_groups_def nonempty_levels_def)
qed

lemma add_ordinal_columns_experiencia:
  "map j_experiencia (add_ordinal_columns df) = map j_experiencia df"
proof -
  have "length (map_ordinal s order) = length s" for s order
    by (simp add: map_ordinal_def)
  then show ?thesis
    unfolding add_ordinal_columns_def
    by (intro nth_equalityI) (simp_all add: map_ordinal_def)
qed

lemma nonempty_levels_add: "nonempty_levels (add_ordinal_columns df) = nonempty_levels df"
proof -
  have "j_experiencia ` set (add_ordinal_columns df) = j_experiencia ` set df"
    using add_ordinal_columns_experiencia [of df] by (metis set_map)
  then show ?thesis by (simp add: nonempty_levels_def)
qed

lemma spearman_items_eq:
  "spearman_items =
     [(exp_num, label_experiencia, Erros, ''Erros''), (exp_num, label_experiencia, Design, ''Design''),
      (kn_ref_num, label_kn_ref, Erros, ''Erros''), (kn_ref_num, label_kn_ref, Design, ''Design''),
      (kn_java_num, label_kn_java, Erros, ''Erros''), (kn_java_num, label_kn_java, Design, ''Design'')]"
  by (simp add: spearman_items_def ordinal_cols_def influence_metrics_def)

lemma spearman_row_Inr:
  "spearman_row lib df (oc, l, m, ml) = Inr r \<Longrightarrow>
     i_variavel r = l \<and> i_metrica r = ml \<and> i_teste r = name_spearman"
  by (auto simp: spearman_row_def split: sum.splits)

lemma spearman_rows_shape:
  assumes "for_each (spearman_row lib df) spearman_items = Inr sp"
  shows "length sp = 6 \<and> (\<forall>r\<in>set sp. i_teste r = name_spearman) \<and>
         map (\<lambda>r. (i_variavel r, i_metrica r)) sp =
           [(label_experiencia, ''Erros''), (label_experiencia, ''Design''),
            (label_kn_ref, ''Erros''), (label_kn_ref, ''Design''),
            (label_kn_java, ''Erros''), (label_kn_java, ''Design'')]"
  using for_each_map_Inr [OF assms] unfolding spearman_items_eq
  by (auto simp: list_all2_Cons1 dest!: spearman_row_Inr)

lemma kruskal_rows_Inr:
  assumes "kruskal_rows lib df (m, ml) = Inr rs"
  shows "(\<forall>r\<in>set rs. i_teste r = name_kruskal \<and> i_variavel r = label_categorias) \<and>
         map i_metrica rs = (if 2 \<le> nonempty_levels df then [ml] else [])"
  using assms
  by (auto simp: kruskal_rows_def Let_def length_kruskal_groups split: if_splits sum.splits)

lemma kruskal_part_shape:
  assumes "for_each (kruskal_rows lib df) influence_metrics = Inr extra"
  shows "(\<forall>r\<in>set (concat extra). i_teste r = name_kruskal \<and> i_variavel r = label_categorias) \<and>
         map i_metrica (concat extra) = (if 2 \<le> nonempty_levels df then [''Erros'', ''Design''] else [])"
  using for_each_map_Inr [OF assms] unfolding influence_metrics_def
  by (auto simp: list_all2_Cons1 dest!: kruskal_rows_Inr)

lemma kruskal_part_skipped:
  assumes "nonempty_levels df < 2"
  shows "for_each (kruskal_rows lib df) influence_metrics = Inr [[], []]"
  using assms by (simp add: influence_metrics_def kruskal_rows_def Let_def length_kruskal_groups)

lemma spearman_part_total:
  assumes "\<forall>ps. \<exists>r. spearmanr lib ps = Inr r"
  shows "\<exists>sp. for_each (spearman_row lib df) spearman_items = Inr sp"
proof (rule for_each_total, rule ballI)
  fix item :: "(numbered_row \<Rightarrow> fl) \<times> string \<times> metric \<times> string"
  obtain oc l m ml where item: "item = (oc, l, m, ml)" by (cases item) auto
  from assms obtain r where "spearmanr_omit lib (map oc df) (map (col m) df) = Inr r"
    unfolding spearmanr_omit_def by blast
  then show "\<exists>y. spearman_row lib df item = Inr y"
    by (simp add: spearman_row_def item)
qed

lemma profile_influence_Inr:
  assumes "snd (profile_influence lib df) = Inr rows"
  shows "\<exists>sp extra. for_each (spearman_row lib (add_ordinal_columns df)) spearman_items = Inr sp \<and>
           for_each (kruskal_rows lib (add_ordinal_columns df)) influence_metrics = Inr extra \<and>
           rows = sp @ concat extra"
proof -
  from assms have i: "influence_rows lib (add_ordinal_columns df) = Inr rows"
    by (simp add: profile_influence_def Let_def)
  then obtain sp where sp: "for_each (spearman_row lib (add_ordinal_columns df)) spearman_items = Inr sp"
    unfolding influence_rows_def by (cases "for_each (spearman_row lib (add_ordinal_columns df)) spearman_items") simp_all
  with i obtain extra where ex: "for_each (kruskal_rows lib (add_ordinal_columns df)) influence_metrics = Inr extra"
    unfolding influence_rows_def by (cases "for_each (kruskal_rows lib (add_ordinal_columns df)) influence_metrics") simp_all
  from i sp ex have "rows = sp @ concat extra"
    unfolding influence_rows_def by simp
  with sp ex show ?thesis by blast
qed

lemma spearman_row_ignores_kruskal: "spearman_row (lib\<lparr>kruskal := k\<rparr>) df item = spearman_row lib df item"
  by (cases item) (simp add: spearman_row_def spearmanr_omit_def)

lemma influence_rows_few:
  assumes "nonempty_levels df < 2"
  shows "influence_rows lib df =
         (case for_each (spearman_row lib df) spearman_items of Inl e \<Rightarrow> Inl e | Inr sp \<Rightarrow> Inr sp)"
  unfolding influence_rows_def kruskal_part_skipped [OF assms]
  by (cases "for_each (spearman_row lib df) spearman_items") simp_all

text \<open>
  Claim C9. Whenever \<open>profile_influence\<close> returns, its result is the six Spearman rows
  (the three ordinal variables, each with the metrics erros and design, in the order of the
  loops) followed by the Kruskal-Wallis rows, and there is a Kruskal-Wallis row for a metric
  exactly when at least two of the four experience levels have a row in the joined table.
  With fewer than two such levels the Kruskal-Wallis routine is not called at all: the
  outcome is the same whatever that routine would do, and when the Spearman routine does not
  raise, the function returns exactly the six Spearman rows.
\<close>

theorem profile_influence_kruskal_gate:
  "(snd (profile_influence lib df) = Inr rows \<longrightarrow>
      (\<exists>sp kw. rows = sp @ kw \<and> length sp = 6 \<and>
         (\<forall>r\<in>set sp. i_teste r = name_spearman) \<and>
         map (\<lambda>r. (i_variavel r, i_metrica r)) sp =
           [(label_experiencia, ''Erros''), (label_experiencia, ''Design''),
            (label_kn_ref, ''Erros''), (label_kn_ref, ''Design''),
            (label_kn_java, ''Erros''), (label_kn_java, ''Design'')] \<and>
         (\<forall>r\<in>set kw. i_teste r = name_kruskal) \<and>
         map i_metrica kw = (if 2 \<le> nonempty_levels df then [''Erros'', ''Design''] else []))) \<and>
   (nonempty_levels df < 2 \<longrightarrow>
      (\<forall>k. profile_influence (lib\<lparr>kruskal := k\<rparr>) df = profile_influence lib df) \<and>
      ((\<forall>ps. \<exists>r. spearmanr lib ps = Inr r) \<longrightarrow>
         (\<exists>sp. snd (profile_influence lib df) = Inr sp \<and> length sp = 6)))"
proof (intro conjI impI)
  let ?df = "add_ordinal_columns df"
  assume "snd (profile_influence lib df) = Inr rows"
  from profile_influence_Inr [OF this] obtain sp extra where
    sp: "for_each (spearman_row lib ?df) spearman_items = Inr sp"
    and ex: "for_each (kruskal_rows lib ?df) influence_metrics = Inr extra"
    and rows: "rows = sp @ concat extra"
    by blast
  from spearman_rows_shape [OF sp] have
    s1: "length sp = 6" and s2: "\<forall>r\<in>set sp. i_teste r = name_spearman" and
    s3: "map (\<lambda>r. (i_variavel r, i_metrica r)) sp =
           [(label_experiencia, ''Erros''), (label_experiencia, ''Design''),
            (label_kn_ref, ''Erros''), (label_kn_ref, ''Design''),
            (label_kn_java, ''Erros''), (label_kn_java, ''Design'')]"
    by simp_all
  from kruskal_part_shape [OF ex] have
    k1: "\<forall>r\<in>set (concat extra). i_teste r = name_kruskal" and
    k2: "map i_metrica (concat extra) = (if 2 \<le> nonempty_levels df then [''Erros'', ''Design''] else [])"
    unfolding nonempty_levels_add by simp_all
  show "\<exists>sp kw. rows = sp @ kw \<and> length sp = 6 \<and>
         (\<forall>r\<in>set sp. i_teste r = name_spearman) \<and>
         map (\<lambda>r. (i_variavel r, i_metrica r)) sp =
           [(label_experiencia, ''Erros''), (label_experiencia, ''Design''),
            (label_kn_ref, ''Erros''), (label_kn_ref, ''Design''),
            (label_kn_java, ''Erros''), (label_kn_java, ''Design'')] \<and>
         (\<forall>r\<in>set kw. i_teste r = name_kruskal) \<and>
         map i_metrica kw = (if 2 \<le> nonempty_levels df then [''Erros'', ''Design''] else [])"
    apply (rule exI [of _ sp])
    apply (rule exI [of _ "concat extra"])
    apply (intro conjI)
         apply (rule rows)
        apply (rule s1)
       apply (rule s2)
      apply (rule s3)
     apply (rule k1)
    apply (rule k2)
    done
next
  let ?df = "add_ordinal_columns df"
  assume few: "nonempty_levels df < 2"
  then have few': "nonempty_levels ?df < 2" by (simp add: nonempty_levels_add)
  have "spearman_row (lib\<lparr>kruskal := k\<rparr>) ?df = spearman_row lib ?df" for k
    by (rule ext) (rule spearman_row_ignores_kruskal)
  then have "influence_rows (lib\<lparr>kruskal := k\<rparr>) ?df = influence_rows lib ?df" for k
    by (simp only: influence_rows_few [OF few'])
  then show "\<forall>k. profile_influence (lib\<lparr>kruskal := k\<rparr>) df = profile_influence lib df"
    by (simp add: profile_influence_def Let_def)
next
  let ?df = "add_ordinal_columns df"
  assume few: "nonempty_levels df < 2" and tot: "\<forall>ps. \<exists>r. spearmanr lib ps = Inr r"
  from few have few': "nonempty_levels ?df < 2" by (simp add: nonempty_levels_add)
  from spearman_part_total [OF tot, of ?df] obtain sp where
    sp: "for_each (spearman_row lib ?df) spearman_items = Inr sp" by blast
  from spearman_rows_shape [OF sp] have "length sp = 6" by simp
  moreover have "snd (profile_influence lib df) = Inr sp"
    by (simp add: profile_influence_def Let_def influence_rows_few [OF few'] sp)
  ultimately show "\<exists>sp. snd (profile_influence lib df) = Inr sp \<and> length sp = 6"
    by blast
qed

lemma influence_rows_sample:
  "influence_rows sample_lib df =
     Inr (six_spearman @ (if 2 \<le> nonempty_levels df then [kruskal_sample ''Erros'', kruskal_sample ''Design''] else []))"
proof -
  have s: "spearman_row sample_lib df (oc, l, m, ml) = Inr (spearman_sample l ml)" for oc l m ml
    by (simp add: spearman_row_def spearmanr_omit_def sample_lib_def const_lib_def rint_numeral spearman_sample_def)
  have k: "kruskal_rows sample_lib df (m, ml) = Inr (if 2 \<le> nonempty_levels df then [kruskal_sample ml] else [])" for m ml
    by (simp add: kruskal_rows_def Let_def length_kruskal_groups sample_lib_def const_lib_def rint_numeral kruskal_sample_def)
  show ?thesis
    by (simp add: influence_rows_def spearman_items_eq influence_metrics_def s k six_spearman_def)
qed

lemma one_level_joined_eq:
  "map j_experiencia one_level_joined = [Some ''0-1 anos'', None]"
  by (simp add: one_level_joined_def join_rows_def two_metrics_def sample_profile_def
      mrow_def prow_def join_row_def)

lemma one_level_joined_levels: "nonempty_levels one_level_joined = 1"
proof -
  have "j_experiencia ` set one_level_joined = {Some ''0-1 anos'', None}"
    using one_level_joined_eq by (metis list.simps(15) set_map empty_set)
  then show ?thesis by (simp add: nonempty_levels_def exp_order_def)
qed

lemma sample_joined_eq:
  "map j_experiencia sample_joined =
     [Some ''0-1 anos'', Some ''1-2 anos'', Some ''3-5 anos'', Some ''6+ anos'', Some ''0-1 anos'',
      Some ''1-2 anos'', None]"
  by (simp add: sample_joined_def join_rows_def sample_df_def sample_profile_def
      mrow_def prow_def join_row_def)

lemma sample_joined_levels: "nonempty_levels sample_joined = 4"
proof -
  have "j_experiencia ` set sample_joined =
          set [Some ''0-1 anos'', Some ''1-2 anos'', Some ''3-5 anos'', Some ''6+ anos'', Some ''0-1 anos'',
               Some ''1-2 anos'', None]"
    using sample_joined_eq by (metis set_map)
  then show ?thesis by (simp add: nonempty_levels_def exp_order_def)
qed

lemma profile_influence_samples:
  "snd (profile_influence sample_lib sample_joined)
     = Inr (six_spearman @ [kruskal_sample ''Erros'', kruskal_sample ''Design''])"
  "snd (profile_influence sample_lib one_level_joined) = Inr six_spearman"
  by (simp_all add: profile_influence_def Let_def influence_rows_sample nonempty_levels_add
      sample_joined_levels one_level_joined_levels)

theorem profile_influence_kruskal_gate_witness:
  "snd (profile_influence sample_lib sample_joined)
     = Inr (six_spearman @ [kruskal_sample ''Erros'', kruskal_sample ''Design'']) \<and>
   2 \<le> nonempty_levels sample_joined \<and>
   nonempty_levels one_level_joined < 2 \<and>
   snd (profile_influence sample_lib one_level_joined) = Inr six_spearman \<and>
   profile_influence (sample_lib\<lparr>kruskal := \<lambda>gs. Inl ValueError\<rparr>) one_level_joined
     = profile_influence sample_lib one_level_joined"
proof -
  have few: "nonempty_levels one_level_joined < 2" by (simp add: one_level_joined_levels)
  from profile_influence_kruskal_gate [of sample_lib one_level_joined six_spearman] few
  have "profile_influence (sample_lib\<lparr>kruskal := \<lambda>gs. Inl ValueError\<rparr>) one_level_joined
     = profile_influence sample_lib one_level_joined"
    by blast
  with few profile_influence_samples sample_joined_levels show ?thesis by simp
qed

section \<open>Properties of main\<close>









lemma script_stops_at_join:
  assumes "load_metrics py metrics_csv = Inr df_metrics"
    and "incompatible_keys (map ID df_metrics) (map pID profile_csv)"
    and "out_dir \<notin> fst ` set (written fs)"
  shows "script py lib metrics_csv profile_csv fs = (fs\<lparr>dirs := insert out_dir (dirs fs)\<rparr>, Some ValueError)"
  using assms by (simp add: script_def mkdir_exist_ok_def main_def Let_def merge_left_def load_profile_def)

text \<open>
  The stages raise only where a parser or a library routine raises: the divisor of the
  Welch effect size is the square root of a variance, which is never negative, so
  \<open>math.sqrt\<close> does not raise.
\<close>

lemma not_negative_sq: "not_negative (fl_sq x)"
  by (cases x) (simp_all add: not_negative_def)

lemma not_negative_add: "not_negative a \<Longrightarrow> not_negative b \<Longrightarrow> not_negative (fl_add a b)"
  by (cases a; cases b) (auto simp: not_negative_def)

lemma not_negative_foldl:
  "not_negative a \<Longrightarrow> \<forall>x\<in>set xs. not_negative x \<Longrightarrow> not_negative (foldl fl_add a xs)"
  by (induction xs arbitrary: a) (simp_all add: not_negative_add)

lemma not_negative_var: "not_negative (series_var xs)"
proof (cases "length (dropna xs) < 2")
  case True
  then show ?thesis by (simp add: series_var_def Let_def not_negative_def)
next
  case False
  have z: "not_negative (Fin 0)" by (simp add: not_negative_def)
  have n: "not_negative (Fin (real (length (dropna xs) - 1)))" by (simp add: not_negative_def)
  have "not_negative (fl_sum (map (\<lambda>y. fl_sq (fl_sub y (series_mean xs))) (dropna xs)))"
    unfolding fl_sum_def by (rule not_negative_foldl [OF z]) (simp add: not_negative_sq)
  from not_negative_div [OF this n] False show ?thesis
    by (simp add: series_var_def Let_def)
qed

lemma math_sqrt_not_negative: "not_negative a \<Longrightarrow> \<exists>d. math_sqrt a = Inr d"
  by (cases a) (auto simp: not_negative_def)

lemma effect_divisor_defined:
  "\<exists>d. math_sqrt (fl_div (fl_add (series_var a) (series_var b)) (Fin 2)) = Inr d"
proof -
  have "not_negative (Fin 2)" by (simp add: not_negative_def)
  then show ?thesis
    by (intro math_sqrt_not_negative not_negative_div not_negative_add not_negative_var)
qed

lemma test_metric_total:
  assumes "\<forall>xs. \<exists>p. shapiro lib xs = Inr p"
    and "\<forall>a b. \<exists>r. ttest_ind lib a b = Inr r"
    and "\<forall>a b. \<exists>r. mannwhitneyu lib a b = Inr r"
  shows "\<exists>row. test_metric lib df ml = Inr row"
proof -
  let ?s = "grp ''SmartRefactor'' (fst ml) df" and ?t = "grp ''Tradicional'' (fst ml) df"
  from assms(1) obtain ps pt where ps: "shapiro lib ?s = Inr ps" and pt: "shapiro lib ?t = Inr pt"
    by blast
  from assms(2) obtain tt where tt: "ttest_ind lib ?s ?t = Inr tt" by blast
  from assms(3) obtain mw where mw: "mannwhitneyu lib ?s ?t = Inr mw" by blast
  from effect_divisor_defined obtain d where
    d: "math_sqrt (fl_div (fl_add (series_var ?s) (series_var ?t)) (Fin 2)) = Inr d" by blast
  show ?thesis
    by (simp add: test_metric_def Let_def ps pt tt mw d)
qed

lemma hypothesis_tests_total:
  assumes "\<forall>xs. \<exists>p. shapiro lib xs = Inr p"
    and "\<forall>a b. \<exists>r. ttest_ind lib a b = Inr r"
    and "\<forall>a b. \<exists>r. mannwhitneyu lib a b = Inr r"
  shows "\<exists>rows. hypothesis_tests lib df = Inr rows"
  unfolding hypothesis_tests_def
  by (rule for_each_total) (simp add: test_metric_total [OF assms])






section \<open>The two groups of the hypothesis tests\<close>

lemma grp_tool_rows: "grp label m df = map (col m) (tool_rows label df)"
  by (simp add: grp_def tool_rows_def bool_index_eq_mask)

lemma test_metric_row:
  assumes "test_metric lib df (m, l) = Inr r"
  shows "\<exists>p_smart p_trad sp d.
           shapiro lib (map (col m) (tool_rows ''SmartRefactor'' df)) = Inr p_smart \<and>
           shapiro lib (map (col m) (tool_rows ''Tradicional'' df)) = Inr p_trad \<and>
           (if fl_gt p_smart (Fin (5 / 100)) \<and> fl_gt p_trad (Fin (5 / 100))
            then ttest_ind lib else mannwhitneyu lib)
             (map (col m) (tool_rows ''SmartRefactor'' df))
             (map (col m) (tool_rows ''Tradicional'' df)) = Inr sp \<and>
           h_estatistica r = py_round (fst sp) 3 \<and> h_p_valor r = py_round (snd sp) 5 \<and>
           math_sqrt (fl_div (fl_add (series_var (map (col m) (tool_rows ''SmartRefactor'' df)))
                                      (series_var (map (col m) (tool_rows ''Tradicional'' df)))) (Fin 2)) = Inr d \<and>
           h_efeito r =
             (if fl_gt p_smart (Fin (5 / 100)) \<and> fl_gt p_trad (Fin (5 / 100))
              then py_round (fl_div (fl_abs (fl_sub
                     (series_mean (map (col m) (tool_rows ''SmartRefactor'' df)))
                     (series_mean (map (col m) (tool_rows ''Tradicional'' df))))) d) 3
              else py_round (fl_div (fl_abs (norm_isf lib (fl_div (snd sp) (Fin 2))))
                     (int_sqrt (length (tool_rows ''SmartRefactor'' df) +
                                length (tool_rows ''Tradicional'' df)))) 3)"
proof -
  let ?s = "map (col m) (tool_rows ''SmartRefactor'' df)" and ?t = "map (col m) (tool_rows ''Tradicional'' df)"
  from effect_divisor_defined [of ?s ?t] obtain d where
    d: "math_sqrt (fl_div (fl_add (series_var ?s) (series_var ?t)) (Fin 2)) = Inr d" by blast
  from assms show ?thesis
    unfolding test_metric_def Let_def grp_tool_rows fst_conv snd_conv
    using d by (auto split: sum.splits if_splits)
qed

lemma hypothesis_tests_other_rows:
  "hypothesis_tests lib df =
     hypothesis_tests lib
       (filter (\<lambda>r. ferramenta r = Some ''SmartRefactor'' \<or> ferramenta r = Some ''Tradicional'') df)"
proof -
  have g: "grp label m (filter (\<lambda>r. ferramenta r = Some ''SmartRefactor'' \<or> ferramenta r = Some ''Tradicional'') df)
             = grp label m df"
    if "label = ''SmartRefactor'' \<or> label = ''Tradicional''" for label m
    using that by (auto simp: grp_def bool_index_eq_mask intro!: arg_cong [where f = "map (col m)"] filter_cong)
  have "test_metric lib (filter (\<lambda>r. ferramenta r = Some ''SmartRefactor'' \<or> ferramenta r = Some ''Tradicional'') df)
          = test_metric lib df"
    unfolding test_metric_def by (rule ext) (simp add: g)
  then show ?thesis
    by (simp add: hypothesis_tests_def)
qed

text \<open>
  Claim C7. Write S and T for the values of a metric in exactly the rows whose tool is
  "SmartRefactor" and in exactly the rows whose tool is "Tradicional". Whenever
  \<open>hypothesis_tests\<close> returns, it returns three rows, and the row of each metric is
  computed from S and T and from nothing else of the table: both Shapiro-Wilk calls are made
  on S and on T, the selected test is called on the pair (S, T), its rounded statistic and
  p-value are the ones reported, and the effect size is computed from the means and variances
  of S and T (Welch) or from the p-value and the sizes of the two groups (Mann-Whitney). It
  does return whenever the three routines return. And the whole result, exception included,
  is the same after all rows with any other tool value, a missing one included, are removed
  from the table.
\<close>

theorem hypothesis_tests_groups:
  "(hypothesis_tests lib df = Inr rows \<longrightarrow>
      length rows = 3 \<and>
      (\<forall>i<3. \<exists>p_smart p_trad sp d.
         shapiro lib (map (col (fst (metric_labels ! i))) (tool_rows ''SmartRefactor'' df)) = Inr p_smart \<and>
         shapiro lib (map (col (fst (metric_labels ! i))) (tool_rows ''Tradicional'' df)) = Inr p_trad \<and>
         (if fl_gt p_smart (Fin (5 / 100)) \<and> fl_gt p_trad (Fin (5 / 100))
          then ttest_ind lib else mannwhitneyu lib)
           (map (col (fst (metric_labels ! i))) (tool_rows ''SmartRefactor'' df))
           (map (col (fst (metric_labels ! i))) (tool_rows ''Tradicional'' df)) = Inr sp \<and>
         h_estatistica (rows ! i) = py_round (fst sp) 3 \<and>
         h_p_valor (rows ! i) = py_round (snd sp) 5 \<and>
         math_sqrt (fl_div (fl_add
             (series_var (map (col (fst (metric_labels ! i))) (tool_rows ''SmartRefactor'' df)))
             (series_var (map (col (fst (metric_labels ! i))) (tool_rows ''Tradicional'' df)))) (Fin 2)) = Inr d \<and>
         h_efeito (rows ! i) =
           (if fl_gt p_smart (Fin (5 / 100)) \<and> fl_gt p_trad (Fin (5 / 100))
            then py_round (fl_div (fl_abs (fl_sub
                   (series_mean (map (col (fst (metric_labels ! i))) (tool_rows ''SmartRefactor'' df)))
                   (series_mean (map (col (fst (metric_labels ! i))) (tool_rows ''Tradicional'' df))))) d) 3
            else py_round (fl_div (fl_abs (norm_isf lib (fl_div (snd sp) (Fin 2))))
                   (int_sqrt (length (tool_rows ''SmartRefactor'' df) +
                              length (tool_rows ''Tradicional'' df)))) 3))) \<and>
   ((\<forall>xs. \<exists>p. shapiro lib xs = Inr p) \<and> (\<forall>a b. \<exists>r. ttest_ind lib a b = Inr r) \<and>
    (\<forall>a b. \<exists>r. mannwhitneyu lib a b = Inr r) \<longrightarrow>
      (\<exists>result. hypothesis_tests lib df = Inr result)) \<and>
   hypothesis_tests lib df =
     hypothesis_tests lib
       (filter (\<lambda>r. ferramenta r = Some ''SmartRefactor'' \<or> ferramenta r = Some ''Tradicional'') df)"
  (is "(_ \<longrightarrow> _ \<and> (\<forall>i<3. ?Q i)) \<and> (?total \<longrightarrow> _) \<and> _")
proof (intro conjI impI)
  assume ret: "hypothesis_tests lib df = Inr rows"
  from for_each_Inr [OF ret [unfolded hypothesis_tests_def]]
  have len: "length rows = length metric_labels"
    and each: "\<forall>i<length metric_labels. test_metric lib df (metric_labels ! i) = Inr (rows ! i)"
    by simp_all
  have l3: "length metric_labels = 3" by (simp add: metric_labels_def)
  from len l3 show "length rows = 3" by simp
  show "\<forall>i<3. ?Q i"
  proof (intro allI impI)
    fix i :: nat assume "i < 3"
    with each l3 have "test_metric lib df (fst (metric_labels ! i), snd (metric_labels ! i)) = Inr (rows ! i)"
      by simp
    then show "?Q i" by (rule test_metric_row)
  qed
next
  assume ?total
  then show "\<exists>result. hypothesis_tests lib df = Inr result"
    by (intro hypothesis_tests_total) blast+
next
  show "hypothesis_tests lib df =
     hypothesis_tests lib
       (filter (\<lambda>r. ferramenta r = Some ''SmartRefactor'' \<or> ferramenta r = Some ''Tradicional'') df)"
    by (rule hypothesis_tests_other_rows)
qed

theorem hypothesis_tests_groups_witness:
  "hypothesis_tests (const_lib (Fin 1) (Fin 2, Fin (1 / 100)) (Fin 3, Fin (1 / 5)) (Fin 1)) sample_df
     = Inr [welch_row ''Tempo (h)'', welch_row ''Erros Funcionais'', welch_row ''Problemas de Design''] \<and>
   map tempo_h (tool_rows ''SmartRefactor'' sample_df) = [Fin 1, Fin 2, Fin 3] \<and>
   map tempo_h (tool_rows ''Tradicional'' sample_df) = [Fin 3, Fin 4, Fin 5] \<and>
   mrow 7 9 ''Outra'' \<in> set sample_df \<and>
   hypothesis_tests (const_lib (Fin 1) (Fin 2, Fin (1 / 100)) (Fin 3, Fin (1 / 5)) (Fin 1))
     (filter (\<lambda>r. ferramenta r = Some ''SmartRefactor'' \<or> ferramenta r = Some ''Tradicional'') sample_df)
     = Inr [welch_row ''Tempo (h)'', welch_row ''Erros Funcionais'', welch_row ''Problemas de Design'']"
proof -
  let ?lib = "const_lib (Fin 1) (Fin 2, Fin (1 / 100)) (Fin 3, Fin (1 / 5)) (Fin 1)"
  let ?rows = "[welch_row ''Tempo (h)'', welch_row ''Erros Funcionais'', welch_row ''Problemas de Design'']"
  have g: "map tempo_h (tool_rows ''SmartRefactor'' sample_df) = [Fin 1, Fin 2, Fin 3]"
    "map tempo_h (tool_rows ''Tradicional'' sample_df) = [Fin 3, Fin 4, Fin 5]"
    "mrow 7 9 ''Outra'' \<in> set sample_df"
    by (simp_all add: tool_rows_def sample_df_def mrow_def)
  from hypothesis_tests_groups [of ?lib sample_df ?rows] hypothesis_tests_sample
  have "length ?rows = 3" and
    "hypothesis_tests ?lib sample_df =
      hypothesis_tests ?lib
        (filter (\<lambda>r. ferramenta r = Some ''SmartRefactor'' \<or> ferramenta r = Some ''Tradicional'') sample_df)"
    by blast+
  with hypothesis_tests_sample g show ?thesis by simp
qed

end
